theory Spec2Isabelle
  imports Complex_Main "HOL-Library.AList"
begin

section \<open>JSON documents as the interpreter holds them\<close>

text \<open>
  The module \<^verbatim>\<open>json_schema_operations.py\<close> runs under Python 2 and Python 3 (lines 10 to 15
  choose the compatibility names). A string is either text (\<^verbatim>\<open>unicode\<close> in Python 2,
  \<^verbatim>\<open>str\<close> in Python 3) or a byte string (\<^verbatim>\<open>str\<close> in Python 2, \<^verbatim>\<open>bytes\<close> in
  Python 3); \<^verbatim>\<open>json.load\<close> produces text, \<^verbatim>\<open>encode\<close> produces byte strings.
\<close>

datatype pystr = Uni string | Byt string

fun chars :: "pystr \<Rightarrow> string" where
  "chars (Uni s) = s"
| "chars (Byt s) = s"

fun same_kind :: "pystr \<Rightarrow> string \<Rightarrow> pystr" where
  "same_kind (Uni r) s = Uni s"
| "same_kind (Byt r) s = Byt s"

text \<open>
  A parsed JSON value. \<^verbatim>\<open>None\<close> is \<open>JNull\<close>; a dict is the list of its items in iteration
  order, with string keys as JSON has them.
\<close>

datatype json =
    JNull
  | JBool bool
  | JInt int
  | JFloat real
  | JStr pystr
  | JArr "json list"
  | JObj "(pystr \<times> json) list"

datatype py_error =
    AttributeError
  | KeyError
  | TypeError
  | IOError
  | ValueError
  | EncodeError
  | RecursionError

text \<open>
  What the module takes from the interpreter, the standard library and the operating
  system: the major version (line 10), \<^verbatim>\<open>encode\<close> of a string under a named encoding,
  \<^verbatim>\<open>os.path.normpath\<close>, \<^verbatim>\<open>os.sep\<close>, \<^verbatim>\<open>os.path.join\<close>, \<^verbatim>\<open>os.getcwd()\<close>, and
  \<^verbatim>\<open>open\<close> followed by \<^verbatim>\<open>json.load\<close> on a path.
\<close>

record py_env =
  py3 :: bool
  encode :: "string \<Rightarrow> pystr \<Rightarrow> py_error + pystr"
  normpath :: "string \<Rightarrow> string"
  sep :: char
  path_join :: "string \<Rightarrow> string list \<Rightarrow> string"
  getcwd :: string
  load_json :: "string \<Rightarrow> py_error + json"

subsection \<open>String comparison and literals\<close>

text \<open>
  Python 2 compares (and hashes) an ASCII byte string equal to the text of the same
  characters; Python 3 never compares text equal to bytes. \<open>str_key\<close> maps a string to the
  representative of its equality class, so two strings are equal for the interpreter
  exactly when their \<open>str_key\<close> agree.
\<close>

definition is_ascii :: "string \<Rightarrow> bool" where
  "is_ascii s = list_all (\<lambda>c. \<not> digit7 c) s"

definition str_key :: "bool \<Rightarrow> pystr \<Rightarrow> pystr" where
  "str_key v3 k = (if \<not> v3 \<and> is_ascii (chars k) then Uni (chars k) else k)"

text \<open>A string literal of the source: text under Python 3, a byte string under Python 2.\<close>

definition lit :: "bool \<Rightarrow> string \<Rightarrow> pystr" where
  "lit v3 s = (if v3 then Uni s else Byt s)"

text \<open>\<^verbatim>\<open>x == "literal"\<close> for a JSON value \<open>x\<close>.\<close>

fun eq_lit :: "bool \<Rightarrow> json \<Rightarrow> string \<Rightarrow> bool" where
  "eq_lit v3 (JStr x) s = (str_key v3 x = str_key v3 (lit v3 s))"
| "eq_lit v3 _ s = False"

text \<open>\<^verbatim>\<open>x in [literals]\<close>: list membership by \<^verbatim>\<open>==\<close>.\<close>

definition in_lits :: "bool \<Rightarrow> json \<Rightarrow> string list \<Rightarrow> bool" where
  "in_lits v3 x ss = list_ex (eq_lit v3 x) ss"

text \<open>Truth value of a JSON value, as \<^verbatim>\<open>if d\<close> tests it.\<close>

fun truthy :: "json \<Rightarrow> bool" where
  "truthy JNull = False"
| "truthy (JBool b) = b"
| "truthy (JInt i) = (i \<noteq> 0)"
| "truthy (JFloat r) = (r \<noteq> 0)"
| "truthy (JStr s) = (chars s \<noteq> [])"
| "truthy (JArr xs) = (xs \<noteq> [])"
| "truthy (JObj kvs) = (kvs \<noteq> [])"

subsection \<open>Dictionaries\<close>

definition dict_keys :: "bool \<Rightarrow> (pystr \<times> json) list \<Rightarrow> (pystr \<times> json) list" where
  "dict_keys v3 kvs = map (\<lambda>(k, v). (str_key v3 k, v)) kvs"

definition dict_get :: "bool \<Rightarrow> (pystr \<times> json) list \<Rightarrow> pystr \<Rightarrow> json option" where
  "dict_get v3 kvs k = map_of (dict_keys v3 kvs) (str_key v3 k)"

text \<open>\<^verbatim>\<open>d[k] = v\<close>: an existing key keeps its place and its key object, a new one is appended.\<close>

fun dict_set :: "bool \<Rightarrow> pystr \<Rightarrow> json \<Rightarrow> (pystr \<times> json) list \<Rightarrow> (pystr \<times> json) list" where
  "dict_set v3 k v [] = [(k, v)]"
| "dict_set v3 k v ((k', v') # kvs) =
     (if str_key v3 k' = str_key v3 k then (k', v) # kvs else (k', v') # dict_set v3 k v kvs)"

text \<open>\<^verbatim>\<open>dict(pairs)\<close>: the pairs are stored one after the other.\<close>

definition dict_of :: "bool \<Rightarrow> (pystr \<times> json) list \<Rightarrow> (pystr \<times> json) list" where
  "dict_of v3 pairs = foldl (\<lambda>d (k, v). dict_set v3 k v d) [] pairs"

text \<open>\<^verbatim>\<open>x.get(k)\<close>, \<^verbatim>\<open>x[k]\<close>, \<^verbatim>\<open>x[k] = v\<close>, \<^verbatim>\<open>k in x.keys()\<close> and \<^verbatim>\<open>iteritems(x)\<close> on a value that
  need not be a dict; only a dict has these attributes.\<close>

fun py_get :: "bool \<Rightarrow> json \<Rightarrow> pystr \<Rightarrow> py_error + json" where
  "py_get v3 (JObj kvs) k = Inr (case dict_get v3 kvs k of None \<Rightarrow> JNull | Some v \<Rightarrow> v)"
| "py_get v3 _ k = Inl AttributeError"

fun py_getitem :: "bool \<Rightarrow> json \<Rightarrow> pystr \<Rightarrow> py_error + json" where
  "py_getitem v3 (JObj kvs) k = (case dict_get v3 kvs k of None \<Rightarrow> Inl KeyError | Some v \<Rightarrow> Inr v)"
| "py_getitem v3 _ k = Inl TypeError"

fun py_setitem :: "bool \<Rightarrow> json \<Rightarrow> pystr \<Rightarrow> json \<Rightarrow> py_error + json" where
  "py_setitem v3 (JObj kvs) k v = Inr (JObj (dict_set v3 k v kvs))"
| "py_setitem v3 _ k v = Inl TypeError"

fun py_has_key :: "bool \<Rightarrow> json \<Rightarrow> pystr \<Rightarrow> py_error + bool" where
  "py_has_key v3 (JObj kvs) k = Inr (dict_get v3 kvs k \<noteq> None)"
| "py_has_key v3 _ k = Inl AttributeError"

fun iteritems :: "json \<Rightarrow> py_error + (pystr \<times> json) list" where
  "iteritems (JObj kvs) = Inr kvs"
| "iteritems _ = Inl AttributeError"

subsection \<open>Splitting a string\<close>

text \<open>\<^verbatim>\<open>s.split(c)\<close> for a one-character separator: always at least one piece.\<close>

fun split_on :: "char \<Rightarrow> string \<Rightarrow> string list" where
  "split_on c [] = [[]]"
| "split_on c (x # xs) =
     (if x = c then [] # split_on c xs
      else (case split_on c xs of [] \<Rightarrow> [[x]] | w # ws \<Rightarrow> (x # w) # ws))"

section \<open>\<^verbatim>\<open>change_encoding\<close> (lines 18 to 48)\<close>

text \<open>
  The two list comprehensions are the functions \<open>change_encoding_list\<close> and
  \<open>change_encoding_items\<close>; an exception of \<^verbatim>\<open>encode\<close> ends the whole call.
  Under Python 3 \<^verbatim>\<open>basestring\<close> is \<^verbatim>\<open>str\<close>, so a byte string is a terminus there.
\<close>

fun change_encoding_str :: "py_env \<Rightarrow> string \<Rightarrow> pystr \<Rightarrow> py_error + pystr" where
  "change_encoding_str env encoding (Uni s) = encode env encoding (Uni s)"
| "change_encoding_str env encoding (Byt s) =
     (if py3 env then Inr (Byt s) else encode env encoding (Byt s))"

fun change_encoding :: "py_env \<Rightarrow> string \<Rightarrow> json \<Rightarrow> py_error + json"
  and change_encoding_list :: "py_env \<Rightarrow> string \<Rightarrow> json list \<Rightarrow> py_error + json list"
  and change_encoding_items ::
    "py_env \<Rightarrow> string \<Rightarrow> (pystr \<times> json) list \<Rightarrow> py_error + (pystr \<times> json) list"
where
  "change_encoding env encoding (JObj kvs) =
     (case change_encoding_items env encoding kvs of
        Inl e \<Rightarrow> Inl e
      | Inr pairs \<Rightarrow> Inr (JObj (dict_of (py3 env) pairs)))"
| "change_encoding env encoding (JArr xs) =
     (case change_encoding_list env encoding xs of
        Inl e \<Rightarrow> Inl e
      | Inr ys \<Rightarrow> Inr (JArr ys))"
| "change_encoding env encoding (JStr s) =
     (case change_encoding_str env encoding s of
        Inl e \<Rightarrow> Inl e
      | Inr b \<Rightarrow> Inr (JStr b))"
| "change_encoding env encoding JNull = Inr JNull"
| "change_encoding env encoding (JBool b) = Inr (JBool b)"
| "change_encoding env encoding (JInt i) = Inr (JInt i)"
| "change_encoding env encoding (JFloat r) = Inr (JFloat r)"
| "change_encoding_list env encoding [] = Inr []"
| "change_encoding_list env encoding (x # xs) =
     (case change_encoding env encoding x of
        Inl e \<Rightarrow> Inl e
      | Inr y \<Rightarrow>
          (case change_encoding_list env encoding xs of
             Inl e \<Rightarrow> Inl e
           | Inr ys \<Rightarrow> Inr (y # ys)))"
| "change_encoding_items env encoding [] = Inr []"
| "change_encoding_items env encoding ((key, val) # kvs) =
     (case change_encoding_str env encoding key of
        Inl e \<Rightarrow> Inl e
      | Inr key' \<Rightarrow>
          (case change_encoding env encoding val of
             Inl e \<Rightarrow> Inl e
           | Inr val' \<Rightarrow>
               (case change_encoding_items env encoding kvs of
                  Inl e \<Rightarrow> Inl e
                | Inr rest \<Rightarrow> Inr ((key', val') # rest))))"

section \<open>Reference resolution (lines 96 to 120)\<close>

text \<open>
  \<^verbatim>\<open>reduce(f, keys, start)\<close> where \<open>f\<close> may raise.
\<close>

fun reduce :: "('a \<Rightarrow> 'b \<Rightarrow> py_error + 'a) \<Rightarrow> 'b list \<Rightarrow> 'a \<Rightarrow> py_error + 'a" where
  "reduce f [] d = Inr d"
| "reduce f (key # keys) d = (case f d key of Inl e \<Rightarrow> Inl e | Inr d' \<Rightarrow> reduce f keys d')"

text \<open>Line 120: \<^verbatim>\<open>lambda d, key: d.get(key) if d else None\<close>.\<close>

definition ref_step :: "bool \<Rightarrow> json \<Rightarrow> pystr \<Rightarrow> py_error + json" where
  "ref_step v3 d key = (if truthy d then py_get v3 d key else Inr JNull)"

text \<open>Line 119: the segments of the pointer after the leading \<^verbatim>\<open>#\<close>.\<close>

definition ref_segments :: "pystr \<Rightarrow> pystr list" where
  "ref_segments r = map (same_kind r) (tl (split_on CHR ''/'' (chars r)))"

definition resolve_local :: "bool \<Rightarrow> json \<Rightarrow> pystr \<Rightarrow> py_error + json" where
  "resolve_local v3 schema r = reduce (ref_step v3) (ref_segments r) schema"

text \<open>Lines 101 to 116: the external file is located, loaded and re-encoded.\<close>

definition external_path :: "py_env \<Rightarrow> string option \<Rightarrow> string \<Rightarrow> string" where
  "external_path env externalRefLoc r =
     (let defPath = normpath env r;
          parts = split_on (sep env) (drop 5 defPath)
      in case externalRefLoc of
           None \<Rightarrow> path_join env (getcwd env) parts
         | Some base \<Rightarrow>
             if base \<noteq> [] then path_join env base parts
             else path_join env (getcwd env) parts)"

definition resolve_external ::
  "py_env \<Rightarrow> string option \<Rightarrow> string option \<Rightarrow> string \<Rightarrow> py_error + json" where
  "resolve_external env newEncoding externalRefLoc r =
     (case load_json env (external_path env externalRefLoc r) of
        Inl e \<Rightarrow> Inl e
      | Inr externalSchema \<Rightarrow>
          (case newEncoding of
             None \<Rightarrow> Inr externalSchema
           | Some encoding \<Rightarrow>
               if encoding \<noteq> [] then change_encoding env encoding externalSchema
               else Inr externalSchema))"

text \<open>
  Lines 97 to 120 for a node that has the key \<^verbatim>\<open>$ref\<close>. \<^verbatim>\<open>startswith\<close> exists on strings
  only, and under Python 3 a byte string refuses a text prefix.
\<close>

fun follow_ref ::
  "py_env \<Rightarrow> json \<Rightarrow> string option \<Rightarrow> string option \<Rightarrow> json \<Rightarrow> py_error + json" where
  "follow_ref env schema newEncoding externalRefLoc (JStr r) =
     (if py3 env \<and> r = Byt (chars r) then Inl TypeError
      else if take 5 (chars r) = ''file:''
        then resolve_external env newEncoding externalRefLoc (chars r)
        else resolve_local (py3 env) schema r)"
| "follow_ref env schema newEncoding externalRefLoc _ = Inl AttributeError"

text \<open>Lines 96 to 120: the node the type dispatch looks at.\<close>

definition resolve_node ::
  "py_env \<Rightarrow> json \<Rightarrow> string option \<Rightarrow> string option \<Rightarrow> json \<Rightarrow> py_error + json" where
  "resolve_node env schema newEncoding externalRefLoc j =
     (case py_has_key (py3 env) j (lit (py3 env) ''$ref'') of
        Inl e \<Rightarrow> Inl e
      | Inr False \<Rightarrow> Inr j
      | Inr True \<Rightarrow>
          (case py_get (py3 env) j (lit (py3 env) ''$ref'') of
             Inl e \<Rightarrow> Inl e
           | Inr defPath \<Rightarrow> follow_ref env schema newEncoding externalRefLoc defPath))"

section \<open>\<^verbatim>\<open>extract_schema_defaults\<close> (lines 51 to 143)\<close>

text \<open>
  The call assigns to \<^verbatim>\<open>schema["properties"]\<close> (line 127), so the model passes the schema
  in and returns it, as the caller finds it afterwards, beside the returned pair. Only the
  dict \<^verbatim>\<open>schema\<close> itself is ever assigned to and the documents are trees, so a value stands
  for the object. The \<^verbatim>\<open>for\<close> loop of line 94 runs over the items of the dict that
  \<^verbatim>\<open>properties\<close> named when the call began; \<open>extract_loop\<close> is that loop, with
  \<^verbatim>\<open>schemaDefaults\<close> and \<^verbatim>\<open>defaultsFound\<close> as accumulators.

  The recursion of line 128 need not end (a pointer may lead back to a node that holds
  it). The first argument bounds the depth of nested calls, as the interpreter's recursion
  limit does; a call beyond it raises \<open>RecursionError\<close>.
\<close>

definition basic_types :: "string list" where
  "basic_types = [''array'', ''boolean'', ''integer'', ''number'', ''string'']"

fun extract_schema_defaults ::
    "py_env \<Rightarrow> nat \<Rightarrow> json \<Rightarrow> string option \<Rightarrow> string option
       \<Rightarrow> py_error + (((pystr \<times> json) list \<times> bool) \<times> json)"
  and extract_loop ::
    "py_env \<Rightarrow> nat \<Rightarrow> json \<Rightarrow> string option \<Rightarrow> string option
       \<Rightarrow> (pystr \<times> json) list \<Rightarrow> (pystr \<times> json) list \<Rightarrow> bool
       \<Rightarrow> py_error + (((pystr \<times> json) list \<times> bool) \<times> json)"
where
  "extract_schema_defaults env 0 schema newEncoding externalRefLoc = Inl RecursionError"
| "extract_schema_defaults env (Suc depth) schema newEncoding externalRefLoc =
     (case py_get (py3 env) schema (lit (py3 env) ''properties'') of
        Inl e \<Rightarrow> Inl e
      | Inr props \<Rightarrow>
          (case iteritems props of
             Inl e \<Rightarrow> Inl e
           | Inr items \<Rightarrow>
               extract_loop env depth schema newEncoding externalRefLoc items [] False))"
| "extract_loop env depth schema newEncoding externalRefLoc [] schemaDefaults defaultsFound =
     Inr ((schemaDefaults, defaultsFound), schema)"
| "extract_loop env depth schema newEncoding externalRefLoc ((i, j0) # rest)
       schemaDefaults defaultsFound =
     (case resolve_node env schema newEncoding externalRefLoc j0 of
        Inl e \<Rightarrow> Inl e
      | Inr j \<Rightarrow>
     (case py_get (py3 env) j (lit (py3 env) ''type'') of
        Inl e \<Rightarrow> Inl e
      | Inr elementType \<Rightarrow>
          if eq_lit (py3 env) elementType ''object'' then
            (case py_getitem (py3 env) j (lit (py3 env) ''properties'') of
               Inl e \<Rightarrow> Inl e
             | Inr sub \<Rightarrow>
            (case py_setitem (py3 env) schema (lit (py3 env) ''properties'') sub of
               Inl e \<Rightarrow> Inl e
             | Inr schema1 \<Rightarrow>
            (case extract_schema_defaults env depth schema1 newEncoding externalRefLoc of
               Inl e \<Rightarrow> Inl e
             | Inr ((elementDefaults, defaultExtracted), schema2) \<Rightarrow>
                 if defaultExtracted
                 then extract_loop env depth schema2 newEncoding externalRefLoc rest
                        (dict_set (py3 env) i (JObj elementDefaults) schemaDefaults) True
                 else extract_loop env depth schema2 newEncoding externalRefLoc rest
                        schemaDefaults defaultsFound)))
          else if in_lits (py3 env) elementType basic_types then
            (case py_get (py3 env) j (lit (py3 env) ''default'') of
               Inl e \<Rightarrow> Inl e
             | Inr dflt \<Rightarrow>
                 if dflt \<noteq> JNull
                 then extract_loop env depth schema newEncoding externalRefLoc rest
                        (dict_set (py3 env) i dflt schemaDefaults) True
                 else extract_loop env depth schema newEncoding externalRefLoc rest
                        schemaDefaults defaultsFound)
          else if eq_lit (py3 env) elementType ''null'' then
            extract_loop env depth schema newEncoding externalRefLoc rest
              (dict_set (py3 env) i JNull schemaDefaults) True
          else
            extract_loop env depth schema newEncoding externalRefLoc rest
              schemaDefaults defaultsFound))"

section \<open>Notions used to state the properties\<close>

text \<open>
  One pass of the loop body (lines 95 to 141) for the node \<open>j0\<close>: the entry it stores under
  the property name, if any, and the schema it leaves. \<open>store_entry\<close> is the two
  assignments that follow a found default.
\<close>

definition property_step ::
  "py_env \<Rightarrow> nat \<Rightarrow> json \<Rightarrow> string option \<Rightarrow> string option \<Rightarrow> json
     \<Rightarrow> py_error + (json option \<times> json)" where
  "property_step env depth schema newEncoding externalRefLoc j0 =
     (case resolve_node env schema newEncoding externalRefLoc j0 of
        Inl e \<Rightarrow> Inl e
      | Inr j \<Rightarrow>
     (case py_get (py3 env) j (lit (py3 env) ''type'') of
        Inl e \<Rightarrow> Inl e
      | Inr elementType \<Rightarrow>
          if eq_lit (py3 env) elementType ''object'' then
            (case py_getitem (py3 env) j (lit (py3 env) ''properties'') of
               Inl e \<Rightarrow> Inl e
             | Inr sub \<Rightarrow>
            (case py_setitem (py3 env) schema (lit (py3 env) ''properties'') sub of
               Inl e \<Rightarrow> Inl e
             | Inr schema1 \<Rightarrow>
            (case extract_schema_defaults env depth schema1 newEncoding externalRefLoc of
               Inl e \<Rightarrow> Inl e
             | Inr ((elementDefaults, defaultExtracted), schema2) \<Rightarrow>
                 Inr (if defaultExtracted then Some (JObj elementDefaults) else None, schema2))))
          else if in_lits (py3 env) elementType basic_types then
            (case py_get (py3 env) j (lit (py3 env) ''default'') of
               Inl e \<Rightarrow> Inl e
             | Inr dflt \<Rightarrow> Inr (if dflt \<noteq> JNull then Some dflt else None, schema))
          else if eq_lit (py3 env) elementType ''null'' then Inr (Some JNull, schema)
          else Inr (None, schema)))"

fun store_entry ::
  "bool \<Rightarrow> pystr \<Rightarrow> json option \<Rightarrow> (pystr \<times> json) list \<times> bool
     \<Rightarrow> (pystr \<times> json) list \<times> bool" where
  "store_entry v3 i None (schemaDefaults, defaultsFound) = (schemaDefaults, defaultsFound)"
| "store_entry v3 i (Some v) (schemaDefaults, defaultsFound) =
     (dict_set v3 i v schemaDefaults, True)"

text \<open>
  \<open>object_node\<close>: the node resolves, against the given schema, to a node of type
  \<^verbatim>\<open>object\<close>. \<open>descends\<close>: some property of the schema does so as the call begins, which
  is when the call reaches line 127.
\<close>

definition object_node ::
  "py_env \<Rightarrow> json \<Rightarrow> string option \<Rightarrow> string option \<Rightarrow> json \<Rightarrow> bool" where
  "object_node env schema newEncoding externalRefLoc j0 =
     (case resolve_node env schema newEncoding externalRefLoc j0 of
        Inl e \<Rightarrow> False
      | Inr j \<Rightarrow>
          (case py_get (py3 env) j (lit (py3 env) ''type'') of
             Inl e \<Rightarrow> False
           | Inr elementType \<Rightarrow> eq_lit (py3 env) elementType ''object''))"

definition descends :: "py_env \<Rightarrow> json \<Rightarrow> string option \<Rightarrow> string option \<Rightarrow> bool" where
  "descends env schema newEncoding externalRefLoc =
     (case py_get (py3 env) schema (lit (py3 env) ''properties'') of
        Inl e \<Rightarrow> False
      | Inr props \<Rightarrow>
          (case iteritems props of
             Inl e \<Rightarrow> False
           | Inr items \<Rightarrow>
               list_ex (\<lambda>p. object_node env schema newEncoding externalRefLoc (snd p)) items))"

text \<open>
  A document with no default anywhere and no null-typed node: no dict in it has the key
  \<^verbatim>\<open>default\<close>, or \<^verbatim>\<open>type\<close> equal to \<^verbatim>\<open>"null"\<close>.
\<close>

fun plain :: "bool \<Rightarrow> json \<Rightarrow> bool" where
  "plain v3 (JObj kvs) =
     (dict_get v3 kvs (lit v3 ''default'') = None
      \<and> \<not> (case dict_get v3 kvs (lit v3 ''type'') of None \<Rightarrow> False | Some t \<Rightarrow> eq_lit v3 t ''null'')
      \<and> list_all (\<lambda>kv. plain v3 (snd kv)) kvs)"
| "plain v3 (JArr xs) = list_all (plain v3) xs"
| "plain v3 _ = True"

subsection \<open>A concrete environment for the examples\<close>

text \<open>
  A POSIX system whose working directory is \<^verbatim>\<open>/work\<close>, for the examples only; the general
  statements leave the environment free. \<open>example_encode\<close> is \<^verbatim>\<open>encode\<close> on ASCII strings for
  the encodings \<^verbatim>\<open>utf-8\<close>, \<^verbatim>\<open>ascii\<close> (the bytes are the characters) and \<^verbatim>\<open>utf-16\<close> (a byte order
  mark, then two bytes for each character); the result is a byte string. On any other
  string or encoding it gives an error, which the codecs need not do. \<open>posix_join\<close> is
  \<^verbatim>\<open>os.path.join\<close> for segments that are neither empty nor absolute, and \<^verbatim>\<open>normpath\<close> is the
  identity, as \<^verbatim>\<open>os.path.normpath\<close> is on a path that is normal already: the examples use
  the path \<^verbatim>\<open>file:ext.json\<close> only.
\<close>

definition utf16 :: "string \<Rightarrow> string" where
  "utf16 s = CHR 0xFF # CHR 0xFE # concat (map (\<lambda>c. [c, CHR 0x00]) s)"

definition example_encode :: "string \<Rightarrow> pystr \<Rightarrow> py_error + pystr" where
  "example_encode encoding s =
     (if \<not> is_ascii (chars s) then Inl EncodeError
      else if encoding = ''utf-8'' \<or> encoding = ''ascii'' then Inr (Byt (chars s))
      else if encoding = ''utf-16'' then Inr (Byt (utf16 (chars s)))
      else Inl EncodeError)"

definition posix_join :: "string \<Rightarrow> string list \<Rightarrow> string" where
  "posix_join base parts = foldl (\<lambda>a p. a @ ''/'' @ p) base parts"

definition posix_env :: "bool \<Rightarrow> (string \<Rightarrow> py_error + json) \<Rightarrow> py_env" where
  "posix_env v3 files =
     \<lparr> py3 = v3, encode = example_encode, normpath = (\<lambda>p. p), sep = CHR ''/'',
       path_join = posix_join, getcwd = ''/work'', load_json = files \<rparr>"

definition no_files :: "string \<Rightarrow> py_error + json" where
  "no_files path = Inl IOError"

subsection \<open>The schemas of the scenarios\<close>

text \<open>
  The documents are as \<^verbatim>\<open>json.load\<close> gives them: every string is text. \<open>point_by_ref\<close>
  refers to the definition \<^verbatim>\<open>Point\<close> where \<open>point_inlined\<close> has its body; \<open>nested_schema\<close> has a
  default on the object \<^verbatim>\<open>a\<close> and another on its property \<^verbatim>\<open>b\<close>; \<open>ext_schema\<close> refers to the
  file \<^verbatim>\<open>ext.json\<close>, which \<open>ext_files\<close> holds in the working directory with the content
  \<open>ext_doc\<close>.
\<close>

definition point :: json where
  "point =
     JObj [(Uni ''type'', JStr (Uni ''object'')),
           (Uni ''properties'',
              JObj [(Uni ''x'', JObj [(Uni ''type'', JStr (Uni ''integer'')),
                                      (Uni ''default'', JInt 0)])])]"

definition point_by_ref :: "pystr \<Rightarrow> json" where
  "point_by_ref name =
     JObj [(Uni ''properties'',
              JObj [(name, JObj [(Uni ''$ref'', JStr (Uni ''#/definitions/Point''))])]),
           (Uni ''definitions'', JObj [(Uni ''Point'', point)])]"

definition point_inlined :: "pystr \<Rightarrow> json" where
  "point_inlined name =
     JObj [(Uni ''properties'', JObj [(name, point)]),
           (Uni ''definitions'', JObj [(Uni ''Point'', point)])]"

definition nested_schema :: json where
  "nested_schema =
     JObj [(Uni ''properties'',
       JObj [(Uni ''a'',
         JObj [(Uni ''type'', JStr (Uni ''object'')),
               (Uni ''default'', JObj [(Uni ''b'', JInt 0)]),
               (Uni ''properties'',
                  JObj [(Uni ''b'', JObj [(Uni ''type'', JStr (Uni ''integer'')),
                                          (Uni ''default'', JInt 1)])])])])]"

definition ext_doc :: json where
  "ext_doc = JObj [(Uni ''type'', JStr (Uni ''integer'')), (Uni ''default'', JInt 7)]"

definition ext_files :: "string \<Rightarrow> py_error + json" where
  "ext_files path = (if path = ''/work/ext.json'' then Inr ext_doc else Inl IOError)"

definition ext_schema :: json where
  "ext_schema =
     JObj [(Uni ''properties'',
              JObj [(Uni ''p'', JObj [(Uni ''$ref'', JStr (Uni ''file:ext.json''))])])]"

text \<open>
  \<open>sibling_schema\<close>: the property \<^verbatim>\<open>b\<close> points to \<^verbatim>\<open>#/properties/x\<close>, which exists in the
  schema only once the loop has gone into the object \<^verbatim>\<open>a\<close> before it.
\<close>

definition sibling_schema :: json where
  "sibling_schema =
     JObj [(Uni ''properties'',
       JObj [(Uni ''a'',
                JObj [(Uni ''type'', JStr (Uni ''object'')),
                      (Uni ''properties'',
                         JObj [(Uni ''x'', JObj [(Uni ''type'', JStr (Uni ''integer'')),
                                                 (Uni ''default'', JInt 1)])])]),
             (Uni ''b'', JObj [(Uni ''$ref'', JStr (Uni ''#/properties/x''))])])]"

text \<open>
  \<open>mixed_schema\<close>: a property of type \<^verbatim>\<open>null\<close>, a string without a default and an integer
  with the default \<open>5\<close>.
\<close>

definition mixed_schema :: json where
  "mixed_schema =
     JObj [(Uni ''properties'',
       JObj [(Uni ''n'', JObj [(Uni ''type'', JStr (Uni ''null''))]),
             (Uni ''s'', JObj [(Uni ''type'', JStr (Uni ''string''))]),
             (Uni ''i'', JObj [(Uni ''type'', JStr (Uni ''integer'')),
                               (Uni ''default'', JInt 5)])])]"

section \<open>Basic facts\<close>

lemma dict_keys_dict_set:
  "dict_keys v3 (dict_set v3 k v kvs) = AList.update (str_key v3 k) v (dict_keys v3 kvs)"
  by (induction kvs) (auto simp: dict_keys_def)

lemma dict_get_dict_set:
  "dict_get v3 (dict_set v3 k v kvs) k' =
     (if str_key v3 k' = str_key v3 k then Some v else dict_get v3 kvs k')"
  by (simp add: dict_get_def dict_keys_dict_set update_conv')

lemma dict_set_not_Nil: "dict_set v3 k v kvs \<noteq> []"
  by (cases kvs) (auto split: if_splits)

lemma dict_set_twice: "dict_set v3 k v (dict_set v3 k u kvs) = dict_set v3 k v kvs"
  by (induction kvs) auto

lemma dict_get_Nil: "dict_get v3 [] k = None"
  by (simp add: dict_get_def dict_keys_def)

lemma extract_loop_step:
  "extract_loop env depth schema enc loc ((i, j0) # rest) acc found =
     (case property_step env depth schema enc loc j0 of
        Inl e \<Rightarrow> Inl e
      | Inr (entry, schema') \<Rightarrow>
          extract_loop env depth schema' enc loc rest
            (fst (store_entry (py3 env) i entry (acc, found)))
            (snd (store_entry (py3 env) i entry (acc, found))))"
  by (simp add: property_step_def split: sum.splits prod.splits)

lemma extract_loop_append:
  "extract_loop env depth schema enc loc (pre @ post) acc found =
     (case extract_loop env depth schema enc loc pre acc found of
        Inl e \<Rightarrow> Inl e
      | Inr ((acc', found'), schema') \<Rightarrow> extract_loop env depth schema' enc loc post acc' found')"
proof (induction pre arbitrary: schema acc found)
  case Nil
  show ?case by simp
next
  case (Cons p pre)
  obtain i j0 where p: "p = (i, j0)" by (cases p)
  show ?case
    unfolding p append_Cons extract_loop_step
    by (simp add: Cons.IH split: sum.splits prod.splits)
qed

lemma extract_unfold:
  assumes "py_get (py3 env) schema (lit (py3 env) ''properties'') = Inr (JObj items)"
  shows "extract_schema_defaults env (Suc depth) schema enc loc =
           extract_loop env depth schema enc loc items [] False"
  using assms by simp

lemma extract_returns_items:
  assumes "extract_schema_defaults env (Suc depth) schema enc loc = Inr r"
  obtains items where "py_get (py3 env) schema (lit (py3 env) ''properties'') = Inr (JObj items)"
    and "extract_loop env depth schema enc loc items [] False = Inr r"
proof -
  from assms obtain props where p: "py_get (py3 env) schema (lit (py3 env) ''properties'') = Inr props"
    by (auto split: sum.splits)
  with assms obtain items where i: "iteritems props = Inr items"
    by (auto split: sum.splits)
  then have "props = JObj items" by (cases props) auto
  with p i assms that show thesis by simp
qed

subsection \<open>Literals of the source\<close>

lemma str_key_lit: "is_ascii s \<Longrightarrow> str_key v3 (lit v3 s) = Uni s"
  by (simp add: str_key_def lit_def)

lemma eq_lit_iff:
  "is_ascii s \<Longrightarrow> eq_lit v3 t s \<longleftrightarrow> (\<exists>x. t = JStr x \<and> str_key v3 x = Uni s)"
  by (cases t) (auto simp: str_key_lit)

lemma ascii_literals:
  "is_ascii ''object''" "is_ascii ''null''" "is_ascii ''array''" "is_ascii ''boolean''"
  "is_ascii ''integer''" "is_ascii ''number''" "is_ascii ''string''"
  "is_ascii ''properties''" "is_ascii ''default''" "is_ascii ''type''" "is_ascii ''$ref''"
  by (simp_all add: is_ascii_def)

lemma in_lits_basic_iff:
  "in_lits v3 t basic_types \<longleftrightarrow>
     (\<exists>x. t = JStr x \<and> str_key v3 x \<in> Uni ` set basic_types)"
  by (auto simp: in_lits_def basic_types_def eq_lit_iff ascii_literals)

lemma basic_not_object: "in_lits v3 t basic_types \<Longrightarrow> \<not> eq_lit v3 t ''object''"
  by (auto simp: in_lits_def eq_lit_iff ascii_literals basic_types_def)

lemma null_not_object: "eq_lit v3 t ''null'' \<Longrightarrow> \<not> eq_lit v3 t ''object''"
  by (auto simp: eq_lit_iff ascii_literals)

lemma null_not_basic: "eq_lit v3 t ''null'' \<Longrightarrow> \<not> in_lits v3 t basic_types"
  by (auto simp: in_lits_def eq_lit_iff ascii_literals basic_types_def)

subsection \<open>The loop, one property at a time\<close>

lemma extract_loop_ConsE:
  assumes "extract_loop env n s enc loc ((i, j0) # rest) acc f = Inr r"
  obtains entry s1 where "property_step env n s enc loc j0 = Inr (entry, s1)"
    and "extract_loop env n s1 enc loc rest
           (fst (store_entry (py3 env) i entry (acc, f)))
           (snd (store_entry (py3 env) i entry (acc, f))) = Inr r"
  using assms unfolding extract_loop_step by (auto split: sum.splits prod.splits)

lemma store_entry_found:
  "(f \<longleftrightarrow> acc \<noteq> []) \<Longrightarrow>
   (snd (store_entry v3 i entry (acc, f)) \<longleftrightarrow> fst (store_entry v3 i entry (acc, f)) \<noteq> [])"
  by (cases entry) (simp_all add: dict_set_not_Nil)

lemma loop_found_iff:
  "extract_loop env n s enc loc ps acc f = Inr ((d, f'), s') \<Longrightarrow> (f \<longleftrightarrow> acc \<noteq> [])
     \<Longrightarrow> (f' \<longleftrightarrow> d \<noteq> [])"
proof (induction ps arbitrary: s acc f)
  case Nil
  then show ?case by auto
next
  case (Cons p ps)
  obtain i j0 where p: "p = (i, j0)" by (cases p)
  from Cons.prems(1) obtain entry s1 where
    rest: "extract_loop env n s1 enc loc ps
           (fst (store_entry (py3 env) i entry (acc, f)))
           (snd (store_entry (py3 env) i entry (acc, f))) = Inr ((d, f'), s')"
    unfolding p by (rule extract_loop_ConsE)
  from Cons.IH [OF rest store_entry_found [OF Cons.prems(2)]] show ?case .
qed

lemma extract_found_iff:
  assumes "extract_schema_defaults env n s enc loc = Inr ((d, f), s')"
  shows "f \<longleftrightarrow> d \<noteq> []"
proof (cases n)
  case 0
  with assms show ?thesis by simp
next
  case (Suc m)
  from assms [unfolded Suc] obtain items where
    "extract_loop env m s enc loc items [] False = Inr ((d, f), s')"
    by (rule extract_returns_items)
  from loop_found_iff [OF this] show ?thesis by simp
qed

lemma store_entry_other:
  "str_key v3 k \<noteq> str_key v3 i \<Longrightarrow>
   dict_get v3 (fst (store_entry v3 i entry (acc, f))) k = dict_get v3 acc k"
  by (cases entry) (simp_all add: dict_get_dict_set)

lemma loop_other_keys:
  "extract_loop env n s enc loc ps acc f = Inr ((d, f'), s')
   \<Longrightarrow> str_key (py3 env) k \<notin> (\<lambda>p. str_key (py3 env) (fst p)) ` set ps
   \<Longrightarrow> dict_get (py3 env) d k = dict_get (py3 env) acc k"
proof (induction ps arbitrary: s acc f)
  case Nil
  then show ?case by simp
next
  case (Cons p ps)
  obtain i j0 where p: "p = (i, j0)" by (cases p)
  from Cons.prems(1) obtain entry s1 where
    rest: "extract_loop env n s1 enc loc ps
           (fst (store_entry (py3 env) i entry (acc, f)))
           (snd (store_entry (py3 env) i entry (acc, f))) = Inr ((d, f'), s')"
    unfolding p by (rule extract_loop_ConsE)
  from Cons.prems(2) have ki: "str_key (py3 env) k \<noteq> str_key (py3 env) i"
    and kps: "str_key (py3 env) k \<notin> (\<lambda>p. str_key (py3 env) (fst p)) ` set ps"
    by (auto simp: p)
  from Cons.IH [OF rest kps] store_entry_other [OF ki] show ?case by simp
qed

lemma store_entry_mono: "snd (store_entry v3 i entry (acc, True))"
  by (cases entry) simp_all

lemma loop_found_mono:
  "extract_loop env n s enc loc ps acc True = Inr ((d, f'), s') \<Longrightarrow> f'"
proof (induction ps arbitrary: s acc)
  case Nil
  then show ?case by simp
next
  case (Cons p ps)
  obtain i j0 where p: "p = (i, j0)" by (cases p)
  from Cons.prems(1) obtain entry s1 where
    rest: "extract_loop env n s1 enc loc ps
           (fst (store_entry (py3 env) i entry (acc, True)))
           (snd (store_entry (py3 env) i entry (acc, True))) = Inr ((d, f'), s')"
    unfolding p by (rule extract_loop_ConsE)
  with store_entry_mono [of "py3 env" i entry acc] Cons.IH show ?case by simp
qed

text \<open>What one pass stores, by the type of the resolved node.\<close>

lemma property_step_null:
  assumes "resolve_node env s enc loc j0 = Inr j"
    and "py_get (py3 env) j (lit (py3 env) ''type'') = Inr t"
    and "eq_lit (py3 env) t ''null''"
  shows "property_step env n s enc loc j0 = Inr (Some JNull, s)"
  using assms null_not_object [OF assms(3)] null_not_basic [OF assms(3)]
  by (simp add: property_step_def)

lemma property_step_basic:
  assumes "resolve_node env s enc loc j0 = Inr j"
    and "py_get (py3 env) j (lit (py3 env) ''type'') = Inr t"
    and "in_lits (py3 env) t basic_types"
    and "py_get (py3 env) j (lit (py3 env) ''default'') = Inr dv"
  shows "property_step env n s enc loc j0 = Inr (if dv \<noteq> JNull then Some dv else None, s)"
  using assms basic_not_object [OF assms(3)]
  by (simp add: property_step_def)

text \<open>The entry of a property in the result of the whole loop.\<close>

lemma loop_entry_at:
  assumes run: "extract_loop env n s enc loc (pre @ (i, j0) # post) [] False = Inr ((d, f), s')"
    and dist: "distinct (map (\<lambda>p. str_key (py3 env) (fst p)) (pre @ (i, j0) # post))"
    and pre: "extract_loop env n s enc loc pre [] False = Inr (r0, cur)"
    and step: "property_step env n cur enc loc j0 = Inr (entry, cur1)"
  shows "dict_get (py3 env) d i = entry" and "entry \<noteq> None \<Longrightarrow> f"
proof -
  obtain acc0 f0 where r0: "r0 = (acc0, f0)" by (cases r0)
  from dist have ipre: "str_key (py3 env) i \<notin> (\<lambda>p. str_key (py3 env) (fst p)) ` set pre"
    and ipost: "str_key (py3 env) i \<notin> (\<lambda>p. str_key (py3 env) (fst p)) ` set post"
    by auto
  from loop_other_keys [OF pre [unfolded r0] ipre]
  have acc0: "dict_get (py3 env) acc0 i = None" by (simp add: dict_get_Nil)
  from run pre have "extract_loop env n cur enc loc ((i, j0) # post) acc0 f0 = Inr ((d, f), s')"
    unfolding extract_loop_append r0 by simp
  then have rest:
    "extract_loop env n cur1 enc loc post
       (fst (store_entry (py3 env) i entry (acc0, f0)))
       (snd (store_entry (py3 env) i entry (acc0, f0))) = Inr ((d, f), s')"
    unfolding extract_loop_step using step by simp
  from loop_other_keys [OF rest ipost]
  show "dict_get (py3 env) d i = entry"
    using acc0 by (cases entry) (simp_all add: dict_get_dict_set)
  show "f" if "entry \<noteq> None"
  proof -
    from that obtain v where "entry = Some v" by auto
    with rest show ?thesis by (auto dest: loop_found_mono)
  qed
qed

subsection \<open>Documents without defaults\<close>

lemma plain_lookup:
  assumes "plain v3 (JObj kvs)" and "dict_get v3 kvs k = Some v"
  shows "plain v3 v"
proof -
  from assms(2) have "(str_key v3 k, v) \<in> set (dict_keys v3 kvs)"
    unfolding dict_get_def by (rule map_of_SomeD)
  then obtain k' where "(k', v) \<in> set kvs" by (auto simp: dict_keys_def)
  with assms(1) show ?thesis by (auto simp: list_all_iff)
qed

lemma plain_py_get:
  assumes "plain v3 x" and "py_get v3 x k = Inr v"
  shows "plain v3 v"
proof (cases x)
  case (JObj kvs)
  show ?thesis
  proof (cases "dict_get v3 kvs k")
    case None
    with assms JObj show ?thesis by simp
  next
    case (Some w)
    with assms JObj plain_lookup [of v3 kvs k w] show ?thesis by simp
  qed
qed (use assms in simp_all)

lemma plain_py_getitem:
  assumes "plain v3 x" and "py_getitem v3 x k = Inr v"
  shows "plain v3 v"
proof (cases x)
  case (JObj kvs)
  with assms obtain w where "dict_get v3 kvs k = Some w" "v = w"
    by (auto split: option.splits)
  with assms JObj plain_lookup [of v3 kvs k w] show ?thesis by simp
qed (use assms in simp_all)

lemma plain_reduce:
  "plain v3 d \<Longrightarrow> reduce (ref_step v3) ks d = Inr v \<Longrightarrow> plain v3 v"
proof (induction ks arbitrary: d)
  case Nil
  then show ?case by simp
next
  case (Cons k ks)
  from Cons.prems(2) obtain d' where step: "ref_step v3 d k = Inr d'"
    and rest: "reduce (ref_step v3) ks d' = Inr v"
    by (auto split: sum.splits)
  from step Cons.prems(1) have "plain v3 d'"
    by (auto simp: ref_step_def split: if_splits dest: plain_py_get)
  from Cons.IH [OF this rest] show ?case .
qed

lemma plain_resolve:
  assumes world: "\<And>r doc. resolve_external env enc loc r = Inr doc \<Longrightarrow> plain (py3 env) doc"
    and s: "plain (py3 env) s" and j0: "plain (py3 env) j0"
    and res: "resolve_node env s enc loc j0 = Inr j"
  shows "plain (py3 env) j"
proof (cases "py_has_key (py3 env) j0 (lit (py3 env) ''$ref'')")
  case (Inl e)
  with res show ?thesis by (simp add: resolve_node_def)
next
  case (Inr b)
  show ?thesis
  proof (cases b)
    case False
    with Inr res j0 show ?thesis by (simp add: resolve_node_def)
  next
    case True
    with Inr res obtain defPath where
      f: "follow_ref env s enc loc defPath = Inr j"
      by (auto simp: resolve_node_def split: sum.splits)
    then obtain r where r: "defPath = JStr r" by (cases defPath) auto
    from f [unfolded r] show ?thesis
      by (auto split: if_splits simp: resolve_local_def dest: world plain_reduce [OF s])
  qed
qed

lemma list_all_dict_set:
  "list_all (\<lambda>kv. P (snd kv)) kvs \<Longrightarrow> P v \<Longrightarrow> list_all (\<lambda>kv. P (snd kv)) (dict_set v3 k v kvs)"
  by (induction kvs) auto

lemma plain_setitem:
  assumes "plain (py3 env) s" and "plain (py3 env) v"
    and "py_setitem (py3 env) s (lit (py3 env) ''properties'') v = Inr s1"
  shows "plain (py3 env) s1"
proof -
  from assms(3) obtain kvs where s: "s = JObj kvs"
    and s1: "s1 = JObj (dict_set (py3 env) (lit (py3 env) ''properties'') v kvs)"
    by (cases s) auto
  from assms(1,2) show ?thesis
    unfolding s s1
    by (simp add: dict_get_dict_set str_key_lit ascii_literals list_all_dict_set)
qed

lemma plain_no_default:
  assumes "plain v3 j" and "py_get v3 j (lit v3 ''default'') = Inr dv"
  shows "dv = JNull"
  using assms by (cases j) auto

lemma plain_not_null:
  assumes "plain v3 j" and "py_get v3 j (lit v3 ''type'') = Inr t"
  shows "\<not> eq_lit v3 t ''null''"
  using assms by (cases j) (auto split: option.splits)

lemma step_plain:
  assumes world: "\<And>r doc. resolve_external env enc loc r = Inr doc \<Longrightarrow> plain (py3 env) doc"
    and IH: "\<And>s d f s'. plain (py3 env) s \<Longrightarrow>
               extract_schema_defaults env n s enc loc = Inr ((d, f), s') \<Longrightarrow>
               d = [] \<and> \<not> f \<and> plain (py3 env) s'"
    and s: "plain (py3 env) s" and j0: "plain (py3 env) j0"
    and step: "property_step env n s enc loc j0 = Inr (e, s1)"
  shows "e = None \<and> plain (py3 env) s1"
proof -
  from step obtain j where res: "resolve_node env s enc loc j0 = Inr j"
    by (auto simp: property_step_def split: sum.splits)
  from plain_resolve [OF world s j0 res] have j: "plain (py3 env) j" .
  from step res obtain t where t: "py_get (py3 env) j (lit (py3 env) ''type'') = Inr t"
    by (auto simp: property_step_def split: sum.splits)
  note nn = plain_not_null [OF j t]
  show ?thesis
  proof (cases "eq_lit (py3 env) t ''object''")
    case True
    with step res t obtain sub schema1 ed ex s2 where
      sub: "py_getitem (py3 env) j (lit (py3 env) ''properties'') = Inr sub"
      and set: "py_setitem (py3 env) s (lit (py3 env) ''properties'') sub = Inr schema1"
      and rec: "extract_schema_defaults env n schema1 enc loc = Inr ((ed, ex), s2)"
      and e: "e = (if ex then Some (JObj ed) else None)" and s1: "s1 = s2"
      by (auto simp: property_step_def split: sum.splits prod.splits)
    from plain_setitem [OF s plain_py_getitem [OF j sub] set] have "plain (py3 env) schema1" .
    from IH [OF this rec] e s1 show ?thesis by simp
  next
    case False
    show ?thesis
    proof (cases "in_lits (py3 env) t basic_types")
      case True
      with step res t False obtain dv where
        dv: "py_get (py3 env) j (lit (py3 env) ''default'') = Inr dv"
        and e: "e = (if dv \<noteq> JNull then Some dv else None)" and s1: "s1 = s"
        by (auto simp: property_step_def split: sum.splits)
      from plain_no_default [OF j dv] e s1 s show ?thesis by simp
    next
      case notbasic: False
      with step res t False nn s show ?thesis
        by (simp add: property_step_def)
    qed
  qed
qed

lemma loop_plain:
  assumes world: "\<And>r doc. resolve_external env enc loc r = Inr doc \<Longrightarrow> plain (py3 env) doc"
    and IH: "\<And>s d f s'. plain (py3 env) s \<Longrightarrow>
               extract_schema_defaults env n s enc loc = Inr ((d, f), s') \<Longrightarrow>
               d = [] \<and> \<not> f \<and> plain (py3 env) s'"
  shows "plain (py3 env) s \<Longrightarrow> list_all (\<lambda>kv. plain (py3 env) (snd kv)) ps \<Longrightarrow>
         extract_loop env n s enc loc ps acc f = Inr ((d, f'), s') \<Longrightarrow>
         d = acc \<and> f' = f \<and> plain (py3 env) s'"
proof (induction ps arbitrary: s)
  case Nil
  then show ?case by auto
next
  case (Cons p ps)
  obtain i j0 where p: "p = (i, j0)" by (cases p)
  from Cons.prems(3) obtain entry s1 where
    step: "property_step env n s enc loc j0 = Inr (entry, s1)" and
    rest: "extract_loop env n s1 enc loc ps
           (fst (store_entry (py3 env) i entry (acc, f)))
           (snd (store_entry (py3 env) i entry (acc, f))) = Inr ((d, f'), s')"
    unfolding p by (rule extract_loop_ConsE)
  from Cons.prems(2) have j0: "plain (py3 env) j0"
    and ps: "list_all (\<lambda>kv. plain (py3 env) (snd kv)) ps" by (simp_all add: p)
  from step_plain [OF world IH Cons.prems(1) j0 step]
  have e: "entry = None" and s1: "plain (py3 env) s1" by simp_all
  from Cons.IH [OF s1 ps] rest e show ?case by simp
qed

lemma extract_plain:
  assumes world: "\<And>r doc. resolve_external env enc loc r = Inr doc \<Longrightarrow> plain (py3 env) doc"
  shows "plain (py3 env) s \<Longrightarrow> extract_schema_defaults env n s enc loc = Inr ((d, f), s') \<Longrightarrow>
         d = [] \<and> \<not> f \<and> plain (py3 env) s'"
proof (induction n arbitrary: s d f s')
  case 0
  then show ?case by simp
next
  case (Suc n)
  from Suc.prems(2) obtain items where
    props: "py_get (py3 env) s (lit (py3 env) ''properties'') = Inr (JObj items)"
    and run: "extract_loop env n s enc loc items [] False = Inr ((d, f), s')"
    by (rule extract_returns_items)
  from plain_py_get [OF Suc.prems(1) props]
  have "list_all (\<lambda>kv. plain (py3 env) (snd kv)) items" by simp
  from loop_plain [OF world Suc.IH Suc.prems(1) this run] show ?case by simp
qed

subsection \<open>Evaluating the examples\<close>

lemmas eval_defs =
  posix_env_def no_files_def lit_def str_key_def is_ascii_def dict_get_def dict_keys_def
  resolve_node_def in_lits_def basic_types_def

lemmas model_defs =
  lit_def str_key_def is_ascii_def dict_get_def dict_keys_def resolve_node_def in_lits_def
  basic_types_def resolve_local_def ref_segments_def ref_step_def

lemma point_by_ref_result:
  "extract_schema_defaults env (Suc (Suc depth)) (point_by_ref name) enc loc =
     Inr (([(name, JObj [(Uni ''x'', JInt 0)])], True),
          JObj [(Uni ''properties'',
                   JObj [(Uni ''x'', JObj [(Uni ''type'', JStr (Uni ''integer'')),
                                           (Uni ''default'', JInt 0)])]),
                (Uni ''definitions'', JObj [(Uni ''Point'', point)])])"
  by (cases "py3 env") (simp_all add: point_by_ref_def point_def model_defs)

lemma point_inlined_result:
  "extract_schema_defaults env (Suc (Suc depth)) (point_inlined name) enc loc =
     Inr (([(name, JObj [(Uni ''x'', JInt 0)])], True),
          JObj [(Uni ''properties'',
                   JObj [(Uni ''x'', JObj [(Uni ''type'', JStr (Uni ''integer'')),
                                           (Uni ''default'', JInt 0)])]),
                (Uni ''definitions'', JObj [(Uni ''Point'', point)])])"
  by (cases "py3 env") (simp_all add: point_inlined_def point_def model_defs)

subsection \<open>Walking a local pointer\<close>

lemma reduce_append:
  "reduce f (xs @ ys) d = (case reduce f xs d of Inl e \<Rightarrow> Inl e | Inr d' \<Rightarrow> reduce f ys d')"
  by (induction xs arbitrary: d) (auto split: sum.splits)

lemma reduce_falsy:
  "\<not> truthy d \<Longrightarrow> reduce (ref_step v3) ks d = Inr (if ks = [] then d else JNull)"
proof (induction ks arbitrary: d)
  case Nil
  show ?case by simp
next
  case (Cons k ks)
  from Cons.prems have "ref_step v3 d k = Inr JNull" by (simp add: ref_step_def)
  moreover have "reduce (ref_step v3) ks JNull = Inr JNull"
    using Cons.IH [of JNull] by simp
  ultimately show ?case by simp
qed

lemma resolve_node_local:
  assumes "py_has_key (py3 env) j0 (lit (py3 env) ''$ref'') = Inr True"
    and "py_get (py3 env) j0 (lit (py3 env) ''$ref'') = Inr (JStr r)"
    and "take 5 (chars r) \<noteq> ''file:''"
    and "\<not> (py3 env \<and> r = Byt (chars r))"
  shows "resolve_node env schema enc loc j0 = resolve_local (py3 env) schema r"
  using assms by (auto simp: resolve_node_def)

lemma walk_absent:
  assumes "ref_segments r = pre @ key # post"
    and "reduce (ref_step v3) pre schema = Inr d"
    and "(\<exists>kvs. d = JObj kvs \<and> dict_get v3 kvs key = None) \<or> \<not> truthy d"
  shows "resolve_local v3 schema r = Inr JNull"
proof -
  from assms(3) have "ref_step v3 d key = Inr JNull"
    by (auto simp: ref_step_def)
  moreover have "reduce (ref_step v3) post JNull = Inr JNull"
    using reduce_falsy [of JNull v3 post] by simp
  ultimately show ?thesis
    using assms(1,2) by (simp add: resolve_local_def reduce_append)
qed

lemma walk_raises:
  assumes "ref_segments r = pre @ key # post"
    and "reduce (ref_step v3) pre schema = Inr d"
    and "truthy d" and "\<forall>kvs. d \<noteq> JObj kvs"
  shows "resolve_local v3 schema r = Inl AttributeError"
proof -
  from assms(3,4) have "ref_step v3 d key = Inl AttributeError"
    by (cases d) (auto simp: ref_step_def)
  then show ?thesis
    using assms(1,2) by (simp add: resolve_local_def reduce_append)
qed

lemma property_step_resolve_error:
  "resolve_node env schema enc loc j0 = Inl e \<Longrightarrow> property_step env n schema enc loc j0 = Inl e"
  by (simp add: property_step_def)

lemma property_step_absent:
  "resolve_node env schema enc loc j0 = Inr JNull \<Longrightarrow>
   property_step env n schema enc loc j0 = Inl AttributeError"
  by (simp add: property_step_def)

subsection \<open>The schema a call leaves behind\<close>

lemma property_step_object:
  assumes "resolve_node env cur enc loc j0 = Inr j"
    and "py_get (py3 env) j (lit (py3 env) ''type'') = Inr t"
    and "eq_lit (py3 env) t ''object''"
  shows "property_step env n cur enc loc j0 =
     (case py_getitem (py3 env) j (lit (py3 env) ''properties'') of
        Inl e \<Rightarrow> Inl e
      | Inr sub \<Rightarrow>
     (case py_setitem (py3 env) cur (lit (py3 env) ''properties'') sub of
        Inl e \<Rightarrow> Inl e
      | Inr schema1 \<Rightarrow>
     (case extract_schema_defaults env n schema1 enc loc of
        Inl e \<Rightarrow> Inl e
      | Inr r1 \<Rightarrow> Inr (if snd (fst r1) then Some (JObj (fst (fst r1))) else None, snd r1))))"
  using assms by (simp add: property_step_def split: sum.splits prod.splits)

lemma property_step_other:
  assumes "resolve_node env cur enc loc j0 = Inr j"
    and "py_get (py3 env) j (lit (py3 env) ''type'') = Inr t"
    and "\<not> eq_lit (py3 env) t ''object''"
    and "property_step env n cur enc loc j0 = Inr (entry, s1)"
  shows "s1 = cur"
proof (cases "in_lits (py3 env) t basic_types")
  case True
  with assms show ?thesis
    by (cases "py_get (py3 env) j (lit (py3 env) ''default'')") (simp_all add: property_step_def)
next
  case False
  with assms show ?thesis
    by (cases "eq_lit (py3 env) t ''null''") (simp_all add: property_step_def)
qed

lemma property_step_resolves:
  assumes "property_step env n cur enc loc j0 = Inr res"
  obtains j t where "resolve_node env cur enc loc j0 = Inr j"
    and "py_get (py3 env) j (lit (py3 env) ''type'') = Inr t"
proof -
  from assms obtain j where j: "resolve_node env cur enc loc j0 = Inr j"
    by (cases "resolve_node env cur enc loc j0") (simp_all add: property_step_def)
  with assms obtain t where "py_get (py3 env) j (lit (py3 env) ''type'') = Inr t"
    by (cases "py_get (py3 env) j (lit (py3 env) ''type'')") (simp_all add: property_step_def)
  with j that show thesis by blast
qed

lemma property_step_cases:
  assumes step: "property_step env n cur enc loc j0 = Inr (entry, s1)"
  shows "(object_node env cur enc loc j0 \<and>
          (\<exists>j sub sch1 r1. resolve_node env cur enc loc j0 = Inr j
             \<and> py_getitem (py3 env) j (lit (py3 env) ''properties'') = Inr sub
             \<and> py_setitem (py3 env) cur (lit (py3 env) ''properties'') sub = Inr sch1
             \<and> extract_schema_defaults env n sch1 enc loc = Inr (r1, s1)
             \<and> entry = (if snd r1 then Some (JObj (fst r1)) else None)))
       \<or> (\<not> object_node env cur enc loc j0 \<and> s1 = cur)"
proof -
  from step obtain j t where j: "resolve_node env cur enc loc j0 = Inr j"
    and t: "py_get (py3 env) j (lit (py3 env) ''type'') = Inr t"
    by (rule property_step_resolves)
  show ?thesis
  proof (cases "eq_lit (py3 env) t ''object''")
    case True
    with j t have obj: "object_node env cur enc loc j0" by (simp add: object_node_def)
    note eq = step [unfolded property_step_object [OF j t True]]
    from eq obtain sub where sub: "py_getitem (py3 env) j (lit (py3 env) ''properties'') = Inr sub"
      by (cases "py_getitem (py3 env) j (lit (py3 env) ''properties'')") simp_all
    from eq sub obtain sch1 where
      sch1: "py_setitem (py3 env) cur (lit (py3 env) ''properties'') sub = Inr sch1"
      by (cases "py_setitem (py3 env) cur (lit (py3 env) ''properties'') sub") simp_all
    from eq sub sch1 obtain q where q: "extract_schema_defaults env n sch1 enc loc = Inr q"
      by (cases "extract_schema_defaults env n sch1 enc loc") simp_all
    from eq sub sch1 q have e: "entry = (if snd (fst q) then Some (JObj (fst (fst q))) else None)"
      and s: "s1 = snd q" by simp_all
    from q s have "extract_schema_defaults env n sch1 enc loc = Inr (fst q, s1)" by simp
    with obj j sub sch1 e show ?thesis by blast
  next
    case False
    with j t have "\<not> object_node env cur enc loc j0" by (simp add: object_node_def)
    moreover from property_step_other [OF j t False step] have "s1 = cur" .
    ultimately show ?thesis by simp
  qed
qed

lemma setitem_twice:
  assumes "py_setitem v3 s k a = Inr s1" and "py_setitem v3 s1 k b = Inr s2"
  shows "py_setitem v3 s k b = Inr s2"
  using assms by (cases s) (auto simp: dict_set_twice)

lemma loop_leaves:
  assumes IH: "\<And>s r s'. extract_schema_defaults env n s enc loc = Inr (r, s')
                 \<Longrightarrow> \<not> descends env s' enc loc"
  shows "extract_loop env n cur enc loc ps acc f = Inr (r, s') \<Longrightarrow>
         (s' = cur \<and> \<not> list_ex (\<lambda>p. object_node env cur enc loc (snd p)) ps)
         \<or> \<not> descends env s' enc loc"
proof (induction ps arbitrary: cur acc f)
  case Nil
  then show ?case by simp
next
  case (Cons p ps)
  obtain i j0 where p: "p = (i, j0)" by (cases p)
  from Cons.prems obtain entry s1 where
    step: "property_step env n cur enc loc j0 = Inr (entry, s1)"
    and rest: "extract_loop env n s1 enc loc ps
           (fst (store_entry (py3 env) i entry (acc, f)))
           (snd (store_entry (py3 env) i entry (acc, f))) = Inr (r, s')"
    unfolding p by (rule extract_loop_ConsE)
  from Cons.IH [OF rest] have after:
    "(s' = s1 \<and> \<not> list_ex (\<lambda>p. object_node env s1 enc loc (snd p)) ps)
       \<or> \<not> descends env s' enc loc" .
  from property_step_cases [OF step] show ?case
  proof (elim disjE conjE exE)
    fix j sub sch1 r1
    assume "extract_schema_defaults env n sch1 enc loc = Inr (r1, s1)"
    then have "\<not> descends env s1 enc loc" by (rule IH)
    with after show ?thesis by auto
  next
    assume "\<not> object_node env cur enc loc j0" and "s1 = cur"
    with after show ?thesis by (auto simp: p)
  qed
qed

lemma extract_leaves:
  "extract_schema_defaults env n s enc loc = Inr (r, s') \<Longrightarrow> \<not> descends env s' enc loc"
proof (induction n arbitrary: s r s')
  case 0
  then show ?case by simp
next
  case (Suc m)
  from Suc.prems obtain items where
    props: "py_get (py3 env) s (lit (py3 env) ''properties'') = Inr (JObj items)"
    and run: "extract_loop env m s enc loc items [] False = Inr (r, s')"
    by (rule extract_returns_items)
  from loop_leaves [OF Suc.IH run]
  show ?case
  proof
    assume "s' = s \<and> \<not> list_ex (\<lambda>p. object_node env s enc loc (snd p)) items"
    with props show ?thesis by (simp add: descends_def)
  qed
qed

lemma loop_no_object:
  "extract_loop env n cur enc loc ps acc f = Inr (r, s')
   \<Longrightarrow> \<not> list_ex (\<lambda>p. object_node env cur enc loc (snd p)) ps \<Longrightarrow> s' = cur"
proof (induction ps arbitrary: acc f)
  case Nil
  then show ?case by simp
next
  case (Cons p ps)
  obtain i j0 where p: "p = (i, j0)" by (cases p)
  from Cons.prems(1) obtain entry s1 where
    step: "property_step env n cur enc loc j0 = Inr (entry, s1)"
    and rest: "extract_loop env n s1 enc loc ps
           (fst (store_entry (py3 env) i entry (acc, f)))
           (snd (store_entry (py3 env) i entry (acc, f))) = Inr (r, s')"
    unfolding p by (rule extract_loop_ConsE)
  from Cons.prems(2) have "\<not> object_node env cur enc loc j0" by (simp add: p)
  with property_step_cases [OF step] have "s1 = cur" by auto
  with Cons.IH [of _ _] rest Cons.prems(2) show ?case by simp
qed

lemma loop_shape:
  assumes IH: "\<And>s r s'. extract_schema_defaults env n s enc loc = Inr (r, s')
                 \<Longrightarrow> s' = s \<or> (\<exists>sub. py_setitem (py3 env) s (lit (py3 env) ''properties'') sub = Inr s')"
  shows "extract_loop env n cur enc loc ps acc f = Inr (r, s') \<Longrightarrow>
         s' = cur \<or> (\<exists>sub. py_setitem (py3 env) cur (lit (py3 env) ''properties'') sub = Inr s')"
proof (induction ps arbitrary: cur acc f)
  case Nil
  then show ?case by simp
next
  case (Cons p ps)
  obtain i j0 where p: "p = (i, j0)" by (cases p)
  from Cons.prems obtain entry s1 where
    step: "property_step env n cur enc loc j0 = Inr (entry, s1)"
    and rest: "extract_loop env n s1 enc loc ps
           (fst (store_entry (py3 env) i entry (acc, f)))
           (snd (store_entry (py3 env) i entry (acc, f))) = Inr (r, s')"
    unfolding p by (rule extract_loop_ConsE)
  have first: "s1 = cur \<or> (\<exists>sub. py_setitem (py3 env) cur (lit (py3 env) ''properties'') sub = Inr s1)"
    using property_step_cases [OF step]
  proof (elim disjE conjE exE)
    fix j sub sch1 r1
    assume set: "py_setitem (py3 env) cur (lit (py3 env) ''properties'') sub = Inr sch1"
      and "extract_schema_defaults env n sch1 enc loc = Inr (r1, s1)"
    from IH [OF this(2)] set show ?thesis
      by (auto dest: setitem_twice)
  next
    assume "s1 = cur"
    then show ?thesis by simp
  qed
  from Cons.IH [OF rest] first show ?case
    by (auto dest: setitem_twice)
qed

lemma extract_shape:
  "extract_schema_defaults env n s enc loc = Inr (r, s') \<Longrightarrow>
   s' = s \<or> (\<exists>sub. py_setitem (py3 env) s (lit (py3 env) ''properties'') sub = Inr s')"
proof (induction n arbitrary: s r s')
  case 0
  then show ?case by simp
next
  case (Suc m)
  from Suc.prems obtain items where
    run: "extract_loop env m s enc loc items [] False = Inr (r, s')"
    by (rule extract_returns_items)
  from loop_shape [OF Suc.IH run] show ?case .
qed

lemma loop_prefix_returns:
  assumes "extract_loop env n s enc loc (pre @ post) acc f = Inr r"
  obtains r0 cur where "extract_loop env n s enc loc pre acc f = Inr (r0, cur)"
    and "extract_loop env n cur enc loc post (fst r0) (snd r0) = Inr r"
  using assms unfolding extract_loop_append by (auto split: sum.splits prod.splits)

lemma sibling_result:
  "extract_schema_defaults env (Suc (Suc depth)) sibling_schema enc loc =
     Inr (([(Uni ''a'', JObj [(Uni ''x'', JInt 1)]), (Uni ''b'', JInt 1)], True),
          JObj [(Uni ''properties'',
                 JObj [(Uni ''x'', JObj [(Uni ''type'', JStr (Uni ''integer'')),
                                         (Uni ''default'', JInt 1)])])])"
  by (cases "py3 env") (simp_all add: sibling_schema_def model_defs)

lemma sibling_descends: "descends env sibling_schema enc loc"
  by (cases "py3 env") (simp_all add: sibling_schema_def descends_def object_node_def model_defs)

subsection \<open>When a pass stores an entry\<close>

lemma property_step_skip:
  assumes "resolve_node env cur enc loc j0 = Inr j"
    and "py_get (py3 env) j (lit (py3 env) ''type'') = Inr t"
    and "\<not> eq_lit (py3 env) t ''object''"
    and "\<not> in_lits (py3 env) t basic_types"
    and "\<not> eq_lit (py3 env) t ''null''"
  shows "property_step env n cur enc loc j0 = Inr (None, cur)"
  using assms by (simp add: property_step_def)

lemma py_get_total:
  assumes "py_get v3 j k = Inr t"
  obtains v where "py_get v3 j k' = Inr v"
  using assms by (cases j) simp_all

lemma entry_by_type:
  assumes step: "property_step env n cur enc loc j0 = Inr (entry, s1)"
    and j: "resolve_node env cur enc loc j0 = Inr j"
    and t: "py_get (py3 env) j (lit (py3 env) ''type'') = Inr t"
  shows "entry \<noteq> None \<longleftrightarrow>
          eq_lit (py3 env) t ''null''
          \<or> (in_lits (py3 env) t basic_types
              \<and> py_get (py3 env) j (lit (py3 env) ''default'') \<noteq> Inr JNull)
          \<or> (eq_lit (py3 env) t ''object''
              \<and> (\<exists>sub schema1 elementDefaults schema2.
                    py_getitem (py3 env) j (lit (py3 env) ''properties'') = Inr sub
                    \<and> py_setitem (py3 env) cur (lit (py3 env) ''properties'') sub = Inr schema1
                    \<and> extract_schema_defaults env n schema1 enc loc
                        = Inr ((elementDefaults, True), schema2)
                    \<and> elementDefaults \<noteq> []))"
proof (cases "eq_lit (py3 env) t ''object''")
  case True
  then have nb: "\<not> in_lits (py3 env) t basic_types" and nn: "\<not> eq_lit (py3 env) t ''null''"
    using basic_not_object null_not_object by blast+
  from j t True have isobj: "object_node env cur enc loc j0" by (simp add: object_node_def)
  from property_step_cases [OF step] isobj obtain j' sub sch1 r1 where
    j': "resolve_node env cur enc loc j0 = Inr j'"
    and sub: "py_getitem (py3 env) j' (lit (py3 env) ''properties'') = Inr sub"
    and set: "py_setitem (py3 env) cur (lit (py3 env) ''properties'') sub = Inr sch1"
    and rec: "extract_schema_defaults env n sch1 enc loc = Inr (r1, s1)"
    and e: "entry = (if snd r1 then Some (JObj (fst r1)) else None)"
    by blast
  from j j' have jj: "j' = j" by simp
  note sub = sub [unfolded jj]
  have "(\<exists>sub schema1 elementDefaults schema2.
                    py_getitem (py3 env) j (lit (py3 env) ''properties'') = Inr sub
                    \<and> py_setitem (py3 env) cur (lit (py3 env) ''properties'') sub = Inr schema1
                    \<and> extract_schema_defaults env n schema1 enc loc
                        = Inr ((elementDefaults, True), schema2)
                    \<and> elementDefaults \<noteq> []) \<longleftrightarrow> snd r1"
  proof
    assume "\<exists>sub schema1 elementDefaults schema2.
                    py_getitem (py3 env) j (lit (py3 env) ''properties'') = Inr sub
                    \<and> py_setitem (py3 env) cur (lit (py3 env) ''properties'') sub = Inr schema1
                    \<and> extract_schema_defaults env n schema1 enc loc
                        = Inr ((elementDefaults, True), schema2)
                    \<and> elementDefaults \<noteq> []"
    then obtain sub' schema1 elementDefaults schema2 where
      a: "py_getitem (py3 env) j (lit (py3 env) ''properties'') = Inr sub'"
      and b: "py_setitem (py3 env) cur (lit (py3 env) ''properties'') sub' = Inr schema1"
      and c: "extract_schema_defaults env n schema1 enc loc = Inr ((elementDefaults, True), schema2)"
      by blast
    from a sub have "sub' = sub" by simp
    with b set have "schema1 = sch1" by simp
    with c rec show "snd r1" by auto
  next
    assume f: "snd r1"
    then have rec': "extract_schema_defaults env n sch1 enc loc = Inr ((fst r1, True), s1)"
      using rec by (cases r1) simp
    from extract_found_iff [OF rec'] have "fst r1 \<noteq> []" by simp
    with sub set rec' show "\<exists>sub schema1 elementDefaults schema2.
                    py_getitem (py3 env) j (lit (py3 env) ''properties'') = Inr sub
                    \<and> py_setitem (py3 env) cur (lit (py3 env) ''properties'') sub = Inr schema1
                    \<and> extract_schema_defaults env n schema1 enc loc
                        = Inr ((elementDefaults, True), schema2)
                    \<and> elementDefaults \<noteq> []"
      by blast
  qed
  moreover from e have "entry \<noteq> None \<longleftrightarrow> snd r1" by simp
  ultimately show ?thesis using True nb nn by simp
next
  case False
  note nobj = False
  show ?thesis
  proof (cases "in_lits (py3 env) t basic_types")
    case True
    then have nn: "\<not> eq_lit (py3 env) t ''null''" using null_not_basic by blast
    from t obtain dv where dv: "py_get (py3 env) j (lit (py3 env) ''default'') = Inr dv"
      by (rule py_get_total)
    from step [unfolded property_step_basic [OF j t True dv]]
    have "entry = (if dv \<noteq> JNull then Some dv else None)" by simp
    then have "entry \<noteq> None \<longleftrightarrow> dv \<noteq> JNull" by simp
    with dv True nn nobj show ?thesis by simp
  next
    case False
    note nb = False
    show ?thesis
    proof (cases "eq_lit (py3 env) t ''null''")
      case True
      from step [unfolded property_step_null [OF j t True]] have "entry = Some JNull" by simp
      with True show ?thesis by simp
    next
      case False
      from step [unfolded property_step_skip [OF j t nobj nb False]] have "entry = None" by simp
      with nobj nb False show ?thesis by simp
    qed
  qed
qed

section \<open>The claims\<close>

text \<open>
  C8. A schema (a dict) that has no \<^verbatim>\<open>properties\<close> entry: \<^verbatim>\<open>schema.get("properties")\<close> is
  \<^verbatim>\<open>None\<close>, \<^verbatim>\<open>iteritems\<close> of it raises \<open>AttributeError\<close>, nothing catches it and the call
  returns no pair. This holds for every call the recursion limit admits.
\<close>

theorem missing_properties_raises:
  assumes "dict_get (py3 env) kvs (lit (py3 env) ''properties'') = None"
  shows "extract_schema_defaults env (Suc depth) (JObj kvs) newEncoding externalRefLoc
           = Inl AttributeError"
  using assms by simp

theorem missing_properties_raises_witness:
  "dict_get (py3 (posix_env True no_files)) [(Uni ''type'', JStr (Uni ''object''))]
       (lit (py3 (posix_env True no_files)) ''properties'') = None
   \<and> extract_schema_defaults (posix_env True no_files) (Suc 0)
         (JObj [(Uni ''type'', JStr (Uni ''object''))]) None None = Inl AttributeError"
proof -
  have h: "dict_get (py3 (posix_env True no_files)) [(Uni ''type'', JStr (Uni ''object''))]
       (lit (py3 (posix_env True no_files)) ''properties'') = None"
    by (simp add: posix_env_def dict_get_def dict_keys_def str_key_def lit_def)
  from h missing_properties_raises [OF h, of 0 None None] show ?thesis by simp
qed

text \<open>
  C10. Whenever the call returns, the flag it returns is true exactly when the returned
  defaults are not empty: line 91 starts with an empty dict and a false flag, and every
  assignment to \<^verbatim>\<open>defaultsFound\<close> (lines 130, 137, 140) stands beside an assignment to
  \<^verbatim>\<open>schemaDefaults[i]\<close>. In particular a schema with no default and no null-typed node
  anywhere (\<open>plain\<close>), whose external files are such documents too once loaded and
  re-encoded, yields the empty dict and \<open>False\<close>.
\<close>

theorem found_flag_is_nonemptiness:
  assumes "extract_schema_defaults env depth schema newEncoding externalRefLoc
             = Inr ((d, f), schema')"
  shows "(f \<longleftrightarrow> d \<noteq> []) \<and>
         (plain (py3 env) schema \<and>
          (\<forall>r doc. resolve_external env newEncoding externalRefLoc r = Inr doc
                     \<longrightarrow> plain (py3 env) doc)
          \<longrightarrow> d = [] \<and> \<not> f)"
proof (intro conjI impI)
  from extract_found_iff [OF assms] show "f \<longleftrightarrow> d \<noteq> []" .
next
  assume h: "plain (py3 env) schema \<and>
          (\<forall>r doc. resolve_external env newEncoding externalRefLoc r = Inr doc
                     \<longrightarrow> plain (py3 env) doc)"
  then have world: "\<And>r doc. resolve_external env newEncoding externalRefLoc r = Inr doc
                      \<Longrightarrow> plain (py3 env) doc" by blast
  from extract_plain [OF world _ assms] h show "d = []" and "\<not> f" by simp_all
qed

theorem found_flag_is_nonemptiness_witness:
  "extract_schema_defaults (posix_env True no_files) (Suc 0)
     (JObj [(Uni ''properties'', JObj [(Uni ''s'', JObj [(Uni ''type'', JStr (Uni ''string''))])])])
     None None
   = Inr (([], False),
       JObj [(Uni ''properties'', JObj [(Uni ''s'', JObj [(Uni ''type'', JStr (Uni ''string''))])])])
   \<and> (False \<longleftrightarrow> ([] :: (pystr \<times> json) list) \<noteq> [])
   \<and> plain True
        (JObj [(Uni ''properties'', JObj [(Uni ''s'', JObj [(Uni ''type'', JStr (Uni ''string''))])])])"
proof -
  let ?S = "JObj [(Uni ''properties'', JObj [(Uni ''s'', JObj [(Uni ''type'', JStr (Uni ''string''))])])]"
  have run: "extract_schema_defaults (posix_env True no_files) (Suc 0) ?S None None
               = Inr (([], False), ?S)"
    by (simp add: eval_defs)
  have pl: "plain True ?S" by (simp add: eval_defs)
  have world: "\<forall>r doc. resolve_external (posix_env True no_files) None None r = Inr doc
                   \<longrightarrow> plain True doc"
    by (simp add: resolve_external_def posix_env_def no_files_def)
  from found_flag_is_nonemptiness [OF run] run pl world show ?thesis by simp
qed

text \<open>
  C2. A property \<open>(i, j0)\<close> of the schema, reached by the loop with the schema as \<open>cur\<close>
  (what the properties before it have left), whose node resolves there to a node of type
  \<^verbatim>\<open>null\<close>: the returned defaults hold \<^verbatim>\<open>None\<close> under \<open>i\<close> and the flag is true, whatever the
  node has under \<^verbatim>\<open>default\<close> (no hypothesis mentions it). The keys of a dict are distinct.
\<close>

theorem null_type_yields_null:
  assumes "extract_schema_defaults env (Suc depth) schema newEncoding externalRefLoc
             = Inr ((d, f), schema')"
    and "py_get (py3 env) schema (lit (py3 env) ''properties'') = Inr (JObj (pre @ (i, j0) # post))"
    and "distinct (map (\<lambda>p. str_key (py3 env) (fst p)) (pre @ (i, j0) # post))"
    and "extract_loop env depth schema newEncoding externalRefLoc pre [] False = Inr (r0, cur)"
    and "resolve_node env cur newEncoding externalRefLoc j0 = Inr j"
    and "py_get (py3 env) j (lit (py3 env) ''type'') = Inr t"
    and "eq_lit (py3 env) t ''null''"
  shows "dict_get (py3 env) d i = Some JNull \<and> f"
proof -
  from assms(1) have run:
    "extract_loop env depth schema newEncoding externalRefLoc (pre @ (i, j0) # post) [] False
       = Inr ((d, f), schema')"
    unfolding extract_unfold [OF assms(2)] .
  note step = property_step_null [OF assms(5,6,7), of depth]
  from loop_entry_at [OF run assms(3,4) step] show ?thesis by simp
qed

theorem null_type_yields_null_witness:
  "extract_schema_defaults (posix_env True no_files) (Suc 0)
     (JObj [(Uni ''properties'',
        JObj [(Uni ''n'', JObj [(Uni ''type'', JStr (Uni ''null'')), (Uni ''default'', JInt 3)])])])
     None None
   = Inr (([(Uni ''n'', JNull)], True),
       JObj [(Uni ''properties'',
        JObj [(Uni ''n'', JObj [(Uni ''type'', JStr (Uni ''null'')), (Uni ''default'', JInt 3)])])])
   \<and> dict_get True [(Uni ''n'', JNull)] (Uni ''n'') = Some JNull"
proof -
  let ?N = "JObj [(Uni ''type'', JStr (Uni ''null'')), (Uni ''default'', JInt 3)]"
  let ?S = "JObj [(Uni ''properties'', JObj [(Uni ''n'', ?N)])]"
  let ?E = "posix_env True no_files"
  have h1: "extract_schema_defaults ?E (Suc 0) ?S None None = Inr (([(Uni ''n'', JNull)], True), ?S)"
    by (simp add: eval_defs)
  have h2: "py_get (py3 ?E) ?S (lit (py3 ?E) ''properties'') = Inr (JObj ([] @ (Uni ''n'', ?N) # []))"
    by (simp add: eval_defs)
  have h3: "distinct (map (\<lambda>p. str_key (py3 ?E) (fst p)) ([] @ (Uni ''n'', ?N) # []))"
    by simp
  have h4: "extract_loop ?E 0 ?S None None [] [] False = Inr (([], False), ?S)"
    by simp
  have h5: "resolve_node ?E ?S None None ?N = Inr ?N"
    by (simp add: eval_defs)
  have h6: "py_get (py3 ?E) ?N (lit (py3 ?E) ''type'') = Inr (JStr (Uni ''null''))"
    by (simp add: eval_defs)
  have h7: "eq_lit (py3 ?E) (JStr (Uni ''null'')) ''null''"
    by (simp add: eval_defs)
  from null_type_yields_null [OF h1 h2 h3 h4 h5 h6 h7] h1 show ?thesis
    by (simp add: posix_env_def)
qed

text \<open>
  C3. The same for a node of a basic type. \<open>dv\<close> is \<^verbatim>\<open>j.get("default", None)\<close>, which is
  \<^verbatim>\<open>None\<close> both for a missing key and for a null value. The property has an entry exactly
  when \<open>dv\<close> is not \<^verbatim>\<open>None\<close>, and then the entry is \<open>dv\<close> and the flag is true; so \<open>0\<close>,
  \<open>False\<close> and the empty string are kept (the witness keeps \<open>0\<close>).
\<close>

theorem basic_type_default:
  assumes "extract_schema_defaults env (Suc depth) schema newEncoding externalRefLoc
             = Inr ((d, f), schema')"
    and "py_get (py3 env) schema (lit (py3 env) ''properties'') = Inr (JObj (pre @ (i, j0) # post))"
    and "distinct (map (\<lambda>p. str_key (py3 env) (fst p)) (pre @ (i, j0) # post))"
    and "extract_loop env depth schema newEncoding externalRefLoc pre [] False = Inr (r0, cur)"
    and "resolve_node env cur newEncoding externalRefLoc j0 = Inr j"
    and "py_get (py3 env) j (lit (py3 env) ''type'') = Inr t"
    and "in_lits (py3 env) t basic_types"
    and "py_get (py3 env) j (lit (py3 env) ''default'') = Inr dv"
  shows "(dict_get (py3 env) d i \<noteq> None \<longleftrightarrow> dv \<noteq> JNull)
         \<and> (dv \<noteq> JNull \<longrightarrow> dict_get (py3 env) d i = Some dv \<and> f)"
proof -
  from assms(1) have run:
    "extract_loop env depth schema newEncoding externalRefLoc (pre @ (i, j0) # post) [] False
       = Inr ((d, f), schema')"
    unfolding extract_unfold [OF assms(2)] .
  note step = property_step_basic [OF assms(5,6,7,8), of depth]
  from loop_entry_at [OF run assms(3,4) step] show ?thesis by auto
qed

theorem basic_type_default_witness:
  "extract_schema_defaults (posix_env True no_files) (Suc 0)
     (JObj [(Uni ''properties'',
        JObj [(Uni ''z'', JObj [(Uni ''type'', JStr (Uni ''integer'')), (Uni ''default'', JInt 0)])])])
     None None
   = Inr (([(Uni ''z'', JInt 0)], True),
       JObj [(Uni ''properties'',
        JObj [(Uni ''z'', JObj [(Uni ''type'', JStr (Uni ''integer'')), (Uni ''default'', JInt 0)])])])
   \<and> dict_get True [(Uni ''z'', JInt 0)] (Uni ''z'') = Some (JInt 0)"
proof -
  let ?N = "JObj [(Uni ''type'', JStr (Uni ''integer'')), (Uni ''default'', JInt 0)]"
  let ?S = "JObj [(Uni ''properties'', JObj [(Uni ''z'', ?N)])]"
  let ?E = "posix_env True no_files"
  have h1: "extract_schema_defaults ?E (Suc 0) ?S None None = Inr (([(Uni ''z'', JInt 0)], True), ?S)"
    by (simp add: eval_defs)
  have h2: "py_get (py3 ?E) ?S (lit (py3 ?E) ''properties'') = Inr (JObj ([] @ (Uni ''z'', ?N) # []))"
    by (simp add: eval_defs)
  have h3: "distinct (map (\<lambda>p. str_key (py3 ?E) (fst p)) ([] @ (Uni ''z'', ?N) # []))"
    by simp
  have h4: "extract_loop ?E 0 ?S None None [] [] False = Inr (([], False), ?S)"
    by simp
  have h5: "resolve_node ?E ?S None None ?N = Inr ?N"
    by (simp add: eval_defs)
  have h6: "py_get (py3 ?E) ?N (lit (py3 ?E) ''type'') = Inr (JStr (Uni ''integer''))"
    by (simp add: eval_defs)
  have h7: "in_lits (py3 ?E) (JStr (Uni ''integer'')) basic_types"
    by (simp add: eval_defs)
  have h8: "py_get (py3 ?E) ?N (lit (py3 ?E) ''default'') = Inr (JInt 0)"
    by (simp add: eval_defs)
  from basic_type_default [OF h1 h2 h3 h4 h5 h6 h7 h8] h1 show ?thesis
    by (simp add: posix_env_def)
qed

text \<open>
  C4. The claim fails where the walk meets a value that is true for \<^verbatim>\<open>if d\<close> and is not a
  dict: line 120 calls \<^verbatim>\<open>d.get\<close> on it, so the resolution itself raises. With \<^verbatim>\<open>"a": 5\<close> at the
  root, the pointer \<^verbatim>\<open>#/a/b\<close> does so.
\<close>

theorem broken_local_ref_counterexample:
  "resolve_local True
     (JObj [(Uni ''properties'', JObj [(Uni ''p'', JObj [(Uni ''$ref'', JStr (Uni ''#/a/b''))])]),
            (Uni ''a'', JInt 5)])
     (Uni ''#/a/b'') = Inl AttributeError"
  by (simp add: model_defs)

text \<open>
  C4, as amended. The node \<open>j0\<close> holds a local pointer \<open>r\<close>, and the walk over its segments
  has reached the value \<open>d\<close> when it looks \<open>key\<close> up. If \<open>d\<close> is a dict without that key, or a
  value that is false for \<^verbatim>\<open>if d\<close> (\<^verbatim>\<open>None\<close>, \<open>0\<close>, \<open>False\<close>, an empty string, list or dict),
  the resolution raises nothing and yields \<^verbatim>\<open>None\<close>, reading the type of \<^verbatim>\<open>None\<close> raises
  \<open>AttributeError\<close>, and so does the loop. If \<open>d\<close> is any other value that is not a dict, the
  resolution itself raises \<open>AttributeError\<close>, and so does the loop.
\<close>

theorem broken_local_ref:
  assumes "py_has_key (py3 env) j0 (lit (py3 env) ''$ref'') = Inr True"
    and "py_get (py3 env) j0 (lit (py3 env) ''$ref'') = Inr (JStr r)"
    and "take 5 (chars r) \<noteq> ''file:''"
    and "\<not> (py3 env \<and> r = Byt (chars r))"
    and "ref_segments r = pre @ key # post"
    and "reduce (ref_step (py3 env)) pre schema = Inr d"
  shows "((\<exists>kvs. d = JObj kvs \<and> dict_get (py3 env) kvs key = None) \<or> \<not> truthy d \<longrightarrow>
            resolve_node env schema newEncoding externalRefLoc j0 = Inr JNull
            \<and> py_get (py3 env) JNull (lit (py3 env) ''type'') = Inl AttributeError
            \<and> extract_loop env depth schema newEncoding externalRefLoc ((i, j0) # rest)
                schemaDefaults defaultsFound = Inl AttributeError)
       \<and> (truthy d \<and> (\<forall>kvs. d \<noteq> JObj kvs) \<longrightarrow>
            resolve_node env schema newEncoding externalRefLoc j0 = Inl AttributeError
            \<and> extract_loop env depth schema newEncoding externalRefLoc ((i, j0) # rest)
                schemaDefaults defaultsFound = Inl AttributeError)"
proof -
  note loc = resolve_node_local [OF assms(1-4), of schema newEncoding externalRefLoc]
  show ?thesis
  proof (intro conjI impI)
    assume a: "(\<exists>kvs. d = JObj kvs \<and> dict_get (py3 env) kvs key = None) \<or> \<not> truthy d"
    from walk_absent [OF assms(5,6) a] loc
    show r: "resolve_node env schema newEncoding externalRefLoc j0 = Inr JNull" by simp
    show "py_get (py3 env) JNull (lit (py3 env) ''type'') = Inl AttributeError" by simp
    show "extract_loop env depth schema newEncoding externalRefLoc ((i, j0) # rest)
                schemaDefaults defaultsFound = Inl AttributeError"
      unfolding extract_loop_step property_step_absent [OF r] by simp
  next
    assume a: "truthy d \<and> (\<forall>kvs. d \<noteq> JObj kvs)"
    then have t: "truthy d" and n: "\<forall>kvs. d \<noteq> JObj kvs" by simp_all
    from walk_raises [OF assms(5,6) t n] loc
    show r: "resolve_node env schema newEncoding externalRefLoc j0 = Inl AttributeError" by simp
    show "extract_loop env depth schema newEncoding externalRefLoc ((i, j0) # rest)
                schemaDefaults defaultsFound = Inl AttributeError"
      unfolding extract_loop_step property_step_resolve_error [OF r] by simp
  qed
qed

theorem broken_local_ref_witness:
  "resolve_node (posix_env True no_files)
     (JObj [(Uni ''properties'', JObj [(Uni ''p'', JObj [(Uni ''$ref'', JStr (Uni ''#/a/b''))])])])
     None None (JObj [(Uni ''$ref'', JStr (Uni ''#/a/b''))]) = Inr JNull
   \<and> extract_loop (posix_env True no_files) 0
       (JObj [(Uni ''properties'', JObj [(Uni ''p'', JObj [(Uni ''$ref'', JStr (Uni ''#/a/b''))])])])
       None None [(Uni ''p'', JObj [(Uni ''$ref'', JStr (Uni ''#/a/b''))])] [] False
     = Inl AttributeError
   \<and> resolve_node (posix_env True no_files)
       (JObj [(Uni ''properties'', JObj [(Uni ''p'', JObj [(Uni ''$ref'', JStr (Uni ''#/a/b''))])]),
              (Uni ''a'', JInt 5)])
       None None (JObj [(Uni ''$ref'', JStr (Uni ''#/a/b''))]) = Inl AttributeError"
proof -
  let ?E = "posix_env True no_files"
  let ?J = "JObj [(Uni ''$ref'', JStr (Uni ''#/a/b''))]"
  let ?S = "JObj [(Uni ''properties'', JObj [(Uni ''p'', ?J)])]"
  let ?T = "JObj [(Uni ''properties'', JObj [(Uni ''p'', ?J)]), (Uni ''a'', JInt 5)]"
  have h1: "py_has_key (py3 ?E) ?J (lit (py3 ?E) ''$ref'') = Inr True"
    by (simp add: eval_defs)
  have h2: "py_get (py3 ?E) ?J (lit (py3 ?E) ''$ref'') = Inr (JStr (Uni ''#/a/b''))"
    by (simp add: eval_defs)
  have h3: "take 5 (chars (Uni ''#/a/b'')) \<noteq> ''file:''" by simp
  have h4: "\<not> (py3 ?E \<and> Uni ''#/a/b'' = Byt (chars (Uni ''#/a/b'')))" by simp
  have h5: "ref_segments (Uni ''#/a/b'') = [] @ Uni ''a'' # [Uni ''b'']"
    by (simp add: ref_segments_def)
  have h6: "reduce (ref_step (py3 ?E)) [] ?S = Inr ?S" by simp
  have a: "(\<exists>kvs. ?S = JObj kvs \<and> dict_get (py3 ?E) kvs (Uni ''a'') = None) \<or> \<not> truthy ?S"
    by (simp add: eval_defs)
  have h5': "ref_segments (Uni ''#/a/b'') = [Uni ''a''] @ Uni ''b'' # []"
    by (simp add: ref_segments_def)
  have h6': "reduce (ref_step (py3 ?E)) [Uni ''a''] ?T = Inr (JInt 5)"
    by (simp add: eval_defs ref_step_def)
  have b: "truthy (JInt 5) \<and> (\<forall>kvs. JInt 5 \<noteq> JObj kvs)" by simp
  from broken_local_ref [OF h1 h2 h3 h4 h5 h6, of None None 0 "Uni ''p''" "[]" "[]" False] a
    broken_local_ref [OF h1 h2 h3 h4 h5' h6', of None None 0 "Uni ''p''" "[]" "[]" False] b
  show ?thesis by blast
qed

text \<open>
  C5. The schema refers to \<^verbatim>\<open>file:ext.json\<close>, which parses to \<^verbatim>\<open>{"type": "integer", "default": 7}\<close>.
  Under Python 3 with the encoding \<^verbatim>\<open>utf-8\<close>, line 112 re-encodes the loaded document and
  line 45 makes its keys byte strings; line 123 then asks for the text key \<^verbatim>\<open>"type"\<close>, finds
  nothing, no branch of the dispatch applies, and the call returns \<^verbatim>\<open>({}, False)\<close> where
  \<^verbatim>\<open>({"p": 7}, True)\<close> is due. The same call without an encoding returns \<^verbatim>\<open>({"p": 7}, True)\<close>,
  and so does the call with \<^verbatim>\<open>utf-8\<close> under Python 2.
\<close>

theorem external_ref_python3_result:
  "load_json (posix_env True ext_files) (external_path (posix_env True ext_files) None ''file:ext.json'')
     = Inr ext_doc
   \<and> resolve_node (posix_env True ext_files) ext_schema (Some ''utf-8'') None
        (JObj [(Uni ''$ref'', JStr (Uni ''file:ext.json''))])
     = Inr (JObj [(Byt ''type'', JStr (Byt ''integer'')), (Byt ''default'', JInt 7)])
   \<and> py_get True (JObj [(Byt ''type'', JStr (Byt ''integer'')), (Byt ''default'', JInt 7)])
        (lit True ''type'') = Inr JNull
   \<and> extract_schema_defaults (posix_env True ext_files) (Suc 0) ext_schema (Some ''utf-8'') None
     = Inr (([], False), ext_schema)
   \<and> extract_schema_defaults (posix_env True ext_files) (Suc 0) ext_schema None None
     = Inr (([(Uni ''p'', JInt 7)], True), ext_schema)
   \<and> extract_schema_defaults (posix_env False ext_files) (Suc 0) ext_schema (Some ''utf-8'') None
     = Inr (([(Uni ''p'', JInt 7)], True), ext_schema)"
  by (simp add: ext_schema_def ext_doc_def ext_files_def eval_defs external_path_def
      resolve_external_def example_encode_def posix_join_def dict_of_def)

text \<open>
  C6. For every property name, interpreter, recursion limit of two calls or more, encoding
  and base directory: the schema that refers to \<^verbatim>\<open>#/definitions/Point\<close> and the schema with
  the body of \<^verbatim>\<open>Point\<close> in its place give the same outcome (the same pair, and the same
  schema left behind), and the pair is \<^verbatim>\<open>({name: {"x": 0}}, True)\<close>.
\<close>

theorem local_ref_as_inlined:
  "extract_schema_defaults env (Suc (Suc depth)) (point_by_ref name) newEncoding externalRefLoc
     = extract_schema_defaults env (Suc (Suc depth)) (point_inlined name) newEncoding externalRefLoc
   \<and> map_sum id fst
       (extract_schema_defaults env (Suc (Suc depth)) (point_by_ref name) newEncoding externalRefLoc)
     = Inr ([(name, JObj [(Uni ''x'', JInt 0)])], True)"
  unfolding point_by_ref_result point_inlined_result by simp

text \<open>
  C7. A property \<open>(i, j0)\<close> of the schema, reached by the loop with the schema as \<open>cur\<close>,
  whose node resolves there to a node \<open>j\<close> of type \<^verbatim>\<open>object\<close>. The call assigns the
  properties of \<open>j\<close> to the schema, calls itself, and the entry of \<open>i\<close> in the returned
  defaults is the dict that call extracted, when it extracted one, and absent otherwise:
  lines 125 to 131 never read \<^verbatim>\<open>default\<close> of the object (no hypothesis mentions it). The
  keys of a dict are distinct. For the schema whose object \<^verbatim>\<open>a\<close> has the default \<^verbatim>\<open>{"b": 0}\<close>
  and whose property \<^verbatim>\<open>b\<close> of \<^verbatim>\<open>a\<close> has the default \<open>1\<close>, the result is
  \<^verbatim>\<open>({"a": {"b": 1}}, True)\<close>, and the schema is left with the properties of \<^verbatim>\<open>a\<close>.
\<close>

theorem child_default_overrides_parent:
  "(extract_schema_defaults env (Suc depth) schema newEncoding externalRefLoc
        = Inr ((d, f), schema')
    \<longrightarrow> py_get (py3 env) schema (lit (py3 env) ''properties'')
        = Inr (JObj (pre @ (i, j0) # post))
    \<longrightarrow> distinct (map (\<lambda>p. str_key (py3 env) (fst p)) (pre @ (i, j0) # post))
    \<longrightarrow> extract_loop env depth schema newEncoding externalRefLoc pre [] False = Inr (r0, cur)
    \<longrightarrow> resolve_node env cur newEncoding externalRefLoc j0 = Inr j
    \<longrightarrow> py_get (py3 env) j (lit (py3 env) ''type'') = Inr t
    \<longrightarrow> eq_lit (py3 env) t ''object''
    \<longrightarrow> (\<exists>sub schema1 elementDefaults defaultExtracted schema2.
            py_getitem (py3 env) j (lit (py3 env) ''properties'') = Inr sub
            \<and> py_setitem (py3 env) cur (lit (py3 env) ''properties'') sub = Inr schema1
            \<and> extract_schema_defaults env depth schema1 newEncoding externalRefLoc
                 = Inr ((elementDefaults, defaultExtracted), schema2)
            \<and> dict_get (py3 env) d i
                 = (if defaultExtracted then Some (JObj elementDefaults) else None)))
   \<and> extract_schema_defaults env' (Suc (Suc depth')) nested_schema newEncoding' externalRefLoc'
       = Inr (([(Uni ''a'', JObj [(Uni ''b'', JInt 1)])], True),
              JObj [(Uni ''properties'',
                     JObj [(Uni ''b'', JObj [(Uni ''type'', JStr (Uni ''integer'')),
                                             (Uni ''default'', JInt 1)])])])"
proof (intro conjI impI)
  assume ret: "extract_schema_defaults env (Suc depth) schema newEncoding externalRefLoc
             = Inr ((d, f), schema')"
    and props: "py_get (py3 env) schema (lit (py3 env) ''properties'')
             = Inr (JObj (pre @ (i, j0) # post))"
    and dist: "distinct (map (\<lambda>p. str_key (py3 env) (fst p)) (pre @ (i, j0) # post))"
    and pre: "extract_loop env depth schema newEncoding externalRefLoc pre [] False = Inr (r0, cur)"
    and j: "resolve_node env cur newEncoding externalRefLoc j0 = Inr j"
    and t: "py_get (py3 env) j (lit (py3 env) ''type'') = Inr t"
    and obj: "eq_lit (py3 env) t ''object''"
  from ret have run:
    "extract_loop env depth schema newEncoding externalRefLoc (pre @ (i, j0) # post) [] False
       = Inr ((d, f), schema')"
    unfolding extract_unfold [OF props] .
  obtain acc0 f0 where r0: "r0 = (acc0, f0)" by (cases r0)
  from run pre have
    "extract_loop env depth cur newEncoding externalRefLoc ((i, j0) # post) acc0 f0
       = Inr ((d, f), schema')"
    unfolding extract_loop_append r0 by simp
  then obtain entry s1 where
    step: "property_step env depth cur newEncoding externalRefLoc j0 = Inr (entry, s1)"
    by (rule extract_loop_ConsE)
  from loop_entry_at(1) [OF run dist pre step]
  have entry: "dict_get (py3 env) d i = entry" .
  from j t obj have isobj: "object_node env cur newEncoding externalRefLoc j0"
    by (simp add: object_node_def)
  from property_step_cases [OF step] isobj obtain j' sub sch1 r1 where
    j': "resolve_node env cur newEncoding externalRefLoc j0 = Inr j'"
    and sub: "py_getitem (py3 env) j' (lit (py3 env) ''properties'') = Inr sub"
    and set: "py_setitem (py3 env) cur (lit (py3 env) ''properties'') sub = Inr sch1"
    and rec: "extract_schema_defaults env depth sch1 newEncoding externalRefLoc = Inr (r1, s1)"
    and e: "entry = (if snd r1 then Some (JObj (fst r1)) else None)"
    by blast
  from j j' have jj: "j' = j" by simp
  from rec have rec': "extract_schema_defaults env depth sch1 newEncoding externalRefLoc
      = Inr ((fst r1, snd r1), s1)" by simp
  from sub [unfolded jj] set rec' entry [unfolded e]
  show "\<exists>sub schema1 elementDefaults defaultExtracted schema2.
            py_getitem (py3 env) j (lit (py3 env) ''properties'') = Inr sub
            \<and> py_setitem (py3 env) cur (lit (py3 env) ''properties'') sub = Inr schema1
            \<and> extract_schema_defaults env depth schema1 newEncoding externalRefLoc
                 = Inr ((elementDefaults, defaultExtracted), schema2)
            \<and> dict_get (py3 env) d i
                 = (if defaultExtracted then Some (JObj elementDefaults) else None)"
    by blast
next
  show "extract_schema_defaults env' (Suc (Suc depth')) nested_schema newEncoding' externalRefLoc'
           = Inr (([(Uni ''a'', JObj [(Uni ''b'', JInt 1)])], True),
                  JObj [(Uni ''properties'',
                         JObj [(Uni ''b'', JObj [(Uni ''type'', JStr (Uni ''integer'')),
                                                 (Uni ''default'', JInt 1)])])])"
    by (cases "py3 env'") (simp_all add: nested_schema_def model_defs)
qed

theorem child_default_overrides_parent_witness:
  "extract_schema_defaults (posix_env True no_files) (Suc (Suc 0)) nested_schema None None
     = Inr (([(Uni ''a'', JObj [(Uni ''b'', JInt 1)])], True),
            JObj [(Uni ''properties'',
                   JObj [(Uni ''b'', JObj [(Uni ''type'', JStr (Uni ''integer'')),
                                           (Uni ''default'', JInt 1)])])])
   \<and> py_get True
        (JObj [(Uni ''type'', JStr (Uni ''object'')),
               (Uni ''default'', JObj [(Uni ''b'', JInt 0)]),
               (Uni ''properties'',
                  JObj [(Uni ''b'', JObj [(Uni ''type'', JStr (Uni ''integer'')),
                                          (Uni ''default'', JInt 1)])])])
        (lit True ''default'') = Inr (JObj [(Uni ''b'', JInt 0)])
   \<and> (\<exists>sub schema1 elementDefaults defaultExtracted schema2.
        py_getitem True
          (JObj [(Uni ''type'', JStr (Uni ''object'')),
                 (Uni ''default'', JObj [(Uni ''b'', JInt 0)]),
                 (Uni ''properties'',
                    JObj [(Uni ''b'', JObj [(Uni ''type'', JStr (Uni ''integer'')),
                                            (Uni ''default'', JInt 1)])])])
          (lit True ''properties'') = Inr sub
        \<and> py_setitem True nested_schema (lit True ''properties'') sub = Inr schema1
        \<and> extract_schema_defaults (posix_env True no_files) (Suc 0) schema1 None None
             = Inr ((elementDefaults, defaultExtracted), schema2)
        \<and> dict_get True [(Uni ''a'', JObj [(Uni ''b'', JInt 1)])] (Uni ''a'')
             = (if defaultExtracted then Some (JObj elementDefaults) else None))
   \<and> dict_get True [(Uni ''a'', JObj [(Uni ''b'', JInt 1)])] (Uni ''a'')
     = Some (JObj [(Uni ''b'', JInt 1)])"
proof -
  let ?E = "posix_env True no_files"
  let ?B = "JObj [(Uni ''b'', JObj [(Uni ''type'', JStr (Uni ''integer'')),
                                    (Uni ''default'', JInt 1)])]"
  let ?A = "JObj [(Uni ''type'', JStr (Uni ''object'')),
                  (Uni ''default'', JObj [(Uni ''b'', JInt 0)]),
                  (Uni ''properties'', ?B)]"
  have h1: "extract_schema_defaults ?E (Suc (Suc 0)) nested_schema None None
     = Inr (([(Uni ''a'', JObj [(Uni ''b'', JInt 1)])], True), JObj [(Uni ''properties'', ?B)])"
    by (simp add: nested_schema_def eval_defs resolve_local_def ref_segments_def ref_step_def)
  have h2: "py_get (py3 ?E) nested_schema (lit (py3 ?E) ''properties'')
     = Inr (JObj ([] @ (Uni ''a'', ?A) # []))"
    by (simp add: nested_schema_def eval_defs)
  have h3: "distinct (map (\<lambda>p. str_key (py3 ?E) (fst p)) ([] @ (Uni ''a'', ?A) # []))"
    by simp
  have h4: "extract_loop ?E (Suc 0) nested_schema None None [] [] False
     = Inr (([], False), nested_schema)" by simp
  have h5: "resolve_node ?E nested_schema None None ?A = Inr ?A"
    by (simp add: eval_defs)
  have h6: "py_get (py3 ?E) ?A (lit (py3 ?E) ''type'') = Inr (JStr (Uni ''object''))"
    by (simp add: eval_defs)
  have h7: "eq_lit (py3 ?E) (JStr (Uni ''object'')) ''object''"
    by (simp add: eval_defs)
  have own: "py_get True ?A (lit True ''default'') = Inr (JObj [(Uni ''b'', JInt 0)])"
    by (simp add: eval_defs)
  have entry: "dict_get True [(Uni ''a'', JObj [(Uni ''b'', JInt 1)])] (Uni ''a'')
     = Some (JObj [(Uni ''b'', JInt 1)])"
    by (simp add: eval_defs)
  have v3: "py3 ?E = True" by (simp add: posix_env_def)
  note general = child_default_overrides_parent [THEN conjunct1, rule_format]
  from general [OF h1 h2 h3 h4 h5 h6 h7, unfolded v3] h1 own entry
  show ?thesis by blast
qed

text \<open>
  C9. The call returns the schema as the caller finds it afterwards. Whenever the call
  returns: if some property resolves to an object node as the call begins, the schema it
  leaves differs from the one it was given, by the value under \<^verbatim>\<open>properties\<close> and nothing
  else; if none does, the schema is as it was. Every property \<open>(i, j0)\<close> is resolved against
  \<open>cur\<close>, the schema as the properties before it have left it, not against the schema the
  call was given. When its node \<open>j\<close> is of type \<^verbatim>\<open>object\<close>, line 127 assigns the properties of
  \<open>j\<close> to \<open>cur\<close>, the recursive call runs on the schema so changed (and resolves its own
  pointers there), and the loop goes on to the next property with the schema that call
  leaves; otherwise the loop goes on with \<open>cur\<close>. In \<open>sibling_schema\<close> the pointer of \<^verbatim>\<open>b\<close>
  finds nothing in the schema as given and finds \<^verbatim>\<open>x\<close> in the schema as \<^verbatim>\<open>a\<close> has left it.
\<close>

theorem schema_reassigned_in_place:
  assumes ret: "extract_schema_defaults env (Suc depth) schema newEncoding externalRefLoc
                  = Inr (r, schema')"
  shows "(descends env schema newEncoding externalRefLoc \<longrightarrow>
            schema' \<noteq> schema
            \<and> (\<exists>sub. py_setitem (py3 env) schema (lit (py3 env) ''properties'') sub = Inr schema'))
       \<and> (\<not> descends env schema newEncoding externalRefLoc \<longrightarrow> schema' = schema)
       \<and> (\<forall>pre i j0 post.
            py_get (py3 env) schema (lit (py3 env) ''properties'') = Inr (JObj (pre @ (i, j0) # post))
            \<longrightarrow> (\<exists>r0 cur j.
                   extract_loop env depth schema newEncoding externalRefLoc pre [] False
                     = Inr (r0, cur)
                   \<and> resolve_node env cur newEncoding externalRefLoc j0 = Inr j
                   \<and> (if object_node env cur newEncoding externalRefLoc j0
                      then (\<exists>sub schema1 r1 schema2.
                              py_getitem (py3 env) j (lit (py3 env) ''properties'') = Inr sub
                              \<and> py_setitem (py3 env) cur (lit (py3 env) ''properties'') sub
                                  = Inr schema1
                              \<and> extract_schema_defaults env depth schema1 newEncoding externalRefLoc
                                  = Inr (r1, schema2)
                              \<and> extract_loop env depth schema newEncoding externalRefLoc
                                    (pre @ [(i, j0)]) [] False
                                  = Inr (store_entry (py3 env) i
                                           (if snd r1 then Some (JObj (fst r1)) else None) r0,
                                         schema2))
                      else (\<exists>r1. extract_loop env depth schema newEncoding externalRefLoc
                                    (pre @ [(i, j0)]) [] False
                                  = Inr (r1, cur)))))"
proof (intro conjI impI allI)
  assume d: "descends env schema newEncoding externalRefLoc"
  from extract_leaves [OF ret] d show ne: "schema' \<noteq> schema" by auto
  with extract_shape [OF ret]
  show "\<exists>sub. py_setitem (py3 env) schema (lit (py3 env) ''properties'') sub = Inr schema'"
    by simp
next
  assume nd: "\<not> descends env schema newEncoding externalRefLoc"
  from ret obtain items where
    props: "py_get (py3 env) schema (lit (py3 env) ''properties'') = Inr (JObj items)"
    and run: "extract_loop env depth schema newEncoding externalRefLoc items [] False
                = Inr (r, schema')"
    by (rule extract_returns_items)
  from nd props have "\<not> list_ex (\<lambda>p. object_node env schema newEncoding externalRefLoc (snd p)) items"
    by (simp add: descends_def)
  from loop_no_object [OF run this] show "schema' = schema" .
next
  fix pre i j0 post
  assume props: "py_get (py3 env) schema (lit (py3 env) ''properties'')
                   = Inr (JObj (pre @ (i, j0) # post))"
  from ret have run:
    "extract_loop env depth schema newEncoding externalRefLoc (pre @ (i, j0) # post) [] False
       = Inr (r, schema')"
    unfolding extract_unfold [OF props] .
  from run obtain r0 cur where
    pre: "extract_loop env depth schema newEncoding externalRefLoc pre [] False = Inr (r0, cur)"
    and rest: "extract_loop env depth cur newEncoding externalRefLoc ((i, j0) # post)
                 (fst r0) (snd r0) = Inr (r, schema')"
    by (rule loop_prefix_returns)
  from rest obtain entry s1 where
    step: "property_step env depth cur newEncoding externalRefLoc j0 = Inr (entry, s1)"
    by (rule extract_loop_ConsE)
  from step obtain j t where j: "resolve_node env cur newEncoding externalRefLoc j0 = Inr j"
    by (rule property_step_resolves)
  have one: "extract_loop env depth schema newEncoding externalRefLoc (pre @ [(i, j0)]) [] False
               = Inr (store_entry (py3 env) i entry r0, s1)"
  proof -
    obtain acc0 f0 where r0: "r0 = (acc0, f0)" by (cases r0)
    have "extract_loop env depth schema newEncoding externalRefLoc (pre @ [(i, j0)]) [] False
            = extract_loop env depth cur newEncoding externalRefLoc [(i, j0)] acc0 f0"
      unfolding extract_loop_append using pre r0 by simp
    also have "\<dots> = Inr (store_entry (py3 env) i entry (acc0, f0), s1)"
      unfolding extract_loop_step using step by simp
    finally show ?thesis unfolding r0 .
  qed
  have "if object_node env cur newEncoding externalRefLoc j0
        then (\<exists>sub schema1 r1 schema2.
                py_getitem (py3 env) j (lit (py3 env) ''properties'') = Inr sub
                \<and> py_setitem (py3 env) cur (lit (py3 env) ''properties'') sub = Inr schema1
                \<and> extract_schema_defaults env depth schema1 newEncoding externalRefLoc
                    = Inr (r1, schema2)
                \<and> extract_loop env depth schema newEncoding externalRefLoc
                      (pre @ [(i, j0)]) [] False
                    = Inr (store_entry (py3 env) i
                             (if snd r1 then Some (JObj (fst r1)) else None) r0, schema2))
        else (\<exists>r1. extract_loop env depth schema newEncoding externalRefLoc
                      (pre @ [(i, j0)]) [] False
                    = Inr (r1, cur))"
    using property_step_cases [OF step]
  proof (elim disjE conjE exE)
    fix j' sub sch1 r1
    assume isobj: "object_node env cur newEncoding externalRefLoc j0"
      and j': "resolve_node env cur newEncoding externalRefLoc j0 = Inr j'"
      and sub: "py_getitem (py3 env) j' (lit (py3 env) ''properties'') = Inr sub"
      and set: "py_setitem (py3 env) cur (lit (py3 env) ''properties'') sub = Inr sch1"
      and rec: "extract_schema_defaults env depth sch1 newEncoding externalRefLoc = Inr (r1, s1)"
      and e: "entry = (if snd r1 then Some (JObj (fst r1)) else None)"
    from j j' have jj: "j' = j" by simp
    from one e have
      "extract_loop env depth schema newEncoding externalRefLoc (pre @ [(i, j0)]) [] False
        = Inr (store_entry (py3 env) i (if snd r1 then Some (JObj (fst r1)) else None) r0, s1)"
      by simp
    with sub [unfolded jj] set rec have
      "\<exists>sub schema1 r1 schema2.
                py_getitem (py3 env) j (lit (py3 env) ''properties'') = Inr sub
                \<and> py_setitem (py3 env) cur (lit (py3 env) ''properties'') sub = Inr schema1
                \<and> extract_schema_defaults env depth schema1 newEncoding externalRefLoc
                    = Inr (r1, schema2)
                \<and> extract_loop env depth schema newEncoding externalRefLoc
                      (pre @ [(i, j0)]) [] False
                    = Inr (store_entry (py3 env) i
                             (if snd r1 then Some (JObj (fst r1)) else None) r0, schema2)"
      by blast
    with isobj show ?thesis by simp
  next
    assume nobj: "\<not> object_node env cur newEncoding externalRefLoc j0" and "s1 = cur"
    with one have "\<exists>r1. extract_loop env depth schema newEncoding externalRefLoc
                      (pre @ [(i, j0)]) [] False = Inr (r1, cur)" by simp
    with nobj show ?thesis by simp
  qed
  with pre j show "\<exists>r0 cur j.
                   extract_loop env depth schema newEncoding externalRefLoc pre [] False
                     = Inr (r0, cur)
                   \<and> resolve_node env cur newEncoding externalRefLoc j0 = Inr j
                   \<and> (if object_node env cur newEncoding externalRefLoc j0
                      then (\<exists>sub schema1 r1 schema2.
                              py_getitem (py3 env) j (lit (py3 env) ''properties'') = Inr sub
                              \<and> py_setitem (py3 env) cur (lit (py3 env) ''properties'') sub
                                  = Inr schema1
                              \<and> extract_schema_defaults env depth schema1 newEncoding externalRefLoc
                                  = Inr (r1, schema2)
                              \<and> extract_loop env depth schema newEncoding externalRefLoc
                                    (pre @ [(i, j0)]) [] False
                                  = Inr (store_entry (py3 env) i
                                           (if snd r1 then Some (JObj (fst r1)) else None) r0,
                                         schema2))
                      else (\<exists>r1. extract_loop env depth schema newEncoding externalRefLoc
                                    (pre @ [(i, j0)]) [] False
                                  = Inr (r1, cur)))"
    by blast
qed

theorem schema_reassigned_in_place_witness:
  "extract_schema_defaults (posix_env True no_files) (Suc (Suc 0)) sibling_schema None None
     = Inr (([(Uni ''a'', JObj [(Uni ''x'', JInt 1)]), (Uni ''b'', JInt 1)], True),
            JObj [(Uni ''properties'',
                   JObj [(Uni ''x'', JObj [(Uni ''type'', JStr (Uni ''integer'')),
                                           (Uni ''default'', JInt 1)])])])
   \<and> descends (posix_env True no_files) sibling_schema None None
   \<and> JObj [(Uni ''properties'',
            JObj [(Uni ''x'', JObj [(Uni ''type'', JStr (Uni ''integer'')),
                                    (Uni ''default'', JInt 1)])])] \<noteq> sibling_schema
   \<and> resolve_node (posix_env True no_files)
        (JObj [(Uni ''properties'',
            JObj [(Uni ''x'', JObj [(Uni ''type'', JStr (Uni ''integer'')),
                                    (Uni ''default'', JInt 1)])])])
        None None (JObj [(Uni ''$ref'', JStr (Uni ''#/properties/x''))])
     = Inr (JObj [(Uni ''type'', JStr (Uni ''integer'')), (Uni ''default'', JInt 1)])
   \<and> resolve_node (posix_env True no_files) sibling_schema
        None None (JObj [(Uni ''$ref'', JStr (Uni ''#/properties/x''))])
     = Inr JNull"
proof -
  let ?E = "posix_env True no_files"
  have run: "extract_schema_defaults ?E (Suc (Suc 0)) sibling_schema None None
     = Inr (([(Uni ''a'', JObj [(Uni ''x'', JInt 1)]), (Uni ''b'', JInt 1)], True),
            JObj [(Uni ''properties'',
                   JObj [(Uni ''x'', JObj [(Uni ''type'', JStr (Uni ''integer'')),
                                           (Uni ''default'', JInt 1)])])])"
    by (rule sibling_result)
  have d: "descends ?E sibling_schema None None" by (rule sibling_descends)
  have r1: "resolve_node ?E
        (JObj [(Uni ''properties'',
            JObj [(Uni ''x'', JObj [(Uni ''type'', JStr (Uni ''integer'')),
                                    (Uni ''default'', JInt 1)])])])
        None None (JObj [(Uni ''$ref'', JStr (Uni ''#/properties/x''))])
     = Inr (JObj [(Uni ''type'', JStr (Uni ''integer'')), (Uni ''default'', JInt 1)])"
    by (simp add: posix_env_def model_defs)
  have r2: "resolve_node ?E sibling_schema
        None None (JObj [(Uni ''$ref'', JStr (Uni ''#/properties/x''))]) = Inr JNull"
    by (simp add: posix_env_def sibling_schema_def model_defs)
  from schema_reassigned_in_place [OF run] d
  have "JObj [(Uni ''properties'',
            JObj [(Uni ''x'', JObj [(Uni ''type'', JStr (Uni ''integer'')),
                                    (Uni ''default'', JInt 1)])])] \<noteq> sibling_schema"
    by blast
  with run d r1 r2 show ?thesis by blast
qed

text \<open>
  C1. The claim fails in both directions. A node with a default and no \<^verbatim>\<open>type\<close> is skipped
  by the dispatch of lines 125 to 141, so \<^verbatim>\<open>p\<close> with the default \<open>5\<close> is not a key of the
  result. An object with a default of its own, whose properties have none, is not a key
  either: lines 125 to 131 look at what the recursive call found and at nothing else. And an
  object without any default is a key when one of its properties is of type \<^verbatim>\<open>null\<close>.
\<close>

theorem key_present_counterexample:
  "extract_schema_defaults (posix_env True no_files) (Suc 0)
     (JObj [(Uni ''properties'', JObj [(Uni ''p'', JObj [(Uni ''default'', JInt 5)])])])
     None None
   = Inr (([], False),
       JObj [(Uni ''properties'', JObj [(Uni ''p'', JObj [(Uni ''default'', JInt 5)])])])
   \<and> dict_get True [(Uni ''default'', JInt 5)] (lit True ''default'') = Some (JInt 5)
   \<and> dict_get True [] (Uni ''p'') = None
   \<and> extract_schema_defaults (posix_env True no_files) (Suc (Suc 0))
       (JObj [(Uni ''properties'',
          JObj [(Uni ''a'',
            JObj [(Uni ''type'', JStr (Uni ''object'')),
                  (Uni ''default'', JObj [(Uni ''b'', JInt 0)]),
                  (Uni ''properties'',
                     JObj [(Uni ''b'', JObj [(Uni ''type'', JStr (Uni ''integer''))])])])])])
       None None
     = Inr (([], False),
         JObj [(Uni ''properties'',
            JObj [(Uni ''b'', JObj [(Uni ''type'', JStr (Uni ''integer''))])])])
   \<and> extract_schema_defaults (posix_env True no_files) (Suc (Suc 0))
       (JObj [(Uni ''properties'',
          JObj [(Uni ''a'',
            JObj [(Uni ''type'', JStr (Uni ''object'')),
                  (Uni ''properties'',
                     JObj [(Uni ''n'', JObj [(Uni ''type'', JStr (Uni ''null''))])])])])])
       None None
     = Inr (([(Uni ''a'', JObj [(Uni ''n'', JNull)])], True),
         JObj [(Uni ''properties'',
            JObj [(Uni ''n'', JObj [(Uni ''type'', JStr (Uni ''null''))])])])"
  by (simp add: eval_defs)

text \<open>
  C1, as amended. A property \<open>(i, j0)\<close> of the schema, reached by the loop with the schema as
  \<open>cur\<close>, whose node resolves there to a node \<open>j\<close> with \<open>t\<close> under \<^verbatim>\<open>type\<close> (\<^verbatim>\<open>None\<close> when
  the key is missing). Whenever the call returns, \<open>i\<close> is a key of the returned defaults
  exactly when \<open>t\<close> is \<^verbatim>\<open>null\<close>, or \<open>t\<close> is one of the five basic types and \<open>j\<close> has a
  \<^verbatim>\<open>default\<close> that is not \<^verbatim>\<open>None\<close>, or \<open>t\<close> is \<^verbatim>\<open>object\<close> and the recursive call on the properties
  of \<open>j\<close> reports a default found (its own result is then not empty). Otherwise \<open>i\<close> is
  absent, not mapped to \<^verbatim>\<open>None\<close>. Every key of the result is the name of a property. The keys
  of a dict are distinct.
\<close>

theorem key_present_iff:
  assumes ret: "extract_schema_defaults env (Suc depth) schema newEncoding externalRefLoc
             = Inr ((d, f), schema')"
    and props: "py_get (py3 env) schema (lit (py3 env) ''properties'')
             = Inr (JObj (pre @ (i, j0) # post))"
    and dist: "distinct (map (\<lambda>p. str_key (py3 env) (fst p)) (pre @ (i, j0) # post))"
    and pre: "extract_loop env depth schema newEncoding externalRefLoc pre [] False = Inr (r0, cur)"
    and j: "resolve_node env cur newEncoding externalRefLoc j0 = Inr j"
    and t: "py_get (py3 env) j (lit (py3 env) ''type'') = Inr t"
  shows "(dict_get (py3 env) d i \<noteq> None \<longleftrightarrow>
            eq_lit (py3 env) t ''null''
            \<or> (in_lits (py3 env) t basic_types
                \<and> py_get (py3 env) j (lit (py3 env) ''default'') \<noteq> Inr JNull)
            \<or> (eq_lit (py3 env) t ''object''
                \<and> (\<exists>sub schema1 elementDefaults schema2.
                      py_getitem (py3 env) j (lit (py3 env) ''properties'') = Inr sub
                      \<and> py_setitem (py3 env) cur (lit (py3 env) ''properties'') sub = Inr schema1
                      \<and> extract_schema_defaults env depth schema1 newEncoding externalRefLoc
                          = Inr ((elementDefaults, True), schema2)
                      \<and> elementDefaults \<noteq> [])))
       \<and> (\<forall>k. dict_get (py3 env) d k \<noteq> None \<longrightarrow>
                str_key (py3 env) k
                  \<in> (\<lambda>p. str_key (py3 env) (fst p)) ` set (pre @ (i, j0) # post))"
proof
  from ret have run:
    "extract_loop env depth schema newEncoding externalRefLoc (pre @ (i, j0) # post) [] False
       = Inr ((d, f), schema')"
    unfolding extract_unfold [OF props] .
  obtain acc0 f0 where r0: "r0 = (acc0, f0)" by (cases r0)
  from run pre have
    "extract_loop env depth cur newEncoding externalRefLoc ((i, j0) # post) acc0 f0
       = Inr ((d, f), schema')"
    unfolding extract_loop_append r0 by simp
  then obtain entry s1 where
    step: "property_step env depth cur newEncoding externalRefLoc j0 = Inr (entry, s1)"
    by (rule extract_loop_ConsE)
  from loop_entry_at(1) [OF run dist pre step]
  have entry: "dict_get (py3 env) d i = entry" .
  show "dict_get (py3 env) d i \<noteq> None \<longleftrightarrow>
            eq_lit (py3 env) t ''null''
            \<or> (in_lits (py3 env) t basic_types
                \<and> py_get (py3 env) j (lit (py3 env) ''default'') \<noteq> Inr JNull)
            \<or> (eq_lit (py3 env) t ''object''
                \<and> (\<exists>sub schema1 elementDefaults schema2.
                      py_getitem (py3 env) j (lit (py3 env) ''properties'') = Inr sub
                      \<and> py_setitem (py3 env) cur (lit (py3 env) ''properties'') sub = Inr schema1
                      \<and> extract_schema_defaults env depth schema1 newEncoding externalRefLoc
                          = Inr ((elementDefaults, True), schema2)
                      \<and> elementDefaults \<noteq> []))"
    unfolding entry by (rule entry_by_type [OF step j t])
  show "\<forall>k. dict_get (py3 env) d k \<noteq> None \<longrightarrow>
                str_key (py3 env) k
                  \<in> (\<lambda>p. str_key (py3 env) (fst p)) ` set (pre @ (i, j0) # post)"
  proof (intro allI impI)
    fix k
    assume some: "dict_get (py3 env) d k \<noteq> None"
    show "str_key (py3 env) k \<in> (\<lambda>p. str_key (py3 env) (fst p)) ` set (pre @ (i, j0) # post)"
    proof (rule ccontr)
      assume "str_key (py3 env) k \<notin> (\<lambda>p. str_key (py3 env) (fst p)) ` set (pre @ (i, j0) # post)"
      from loop_other_keys [OF run this] have "dict_get (py3 env) d k = None"
        by (simp add: dict_get_Nil)
      with some show False by simp
    qed
  qed
qed

theorem key_present_iff_witness:
  "extract_schema_defaults (posix_env True no_files) (Suc 0) mixed_schema None None
     = Inr (([(Uni ''n'', JNull), (Uni ''i'', JInt 5)], True), mixed_schema)
   \<and> dict_get True [(Uni ''n'', JNull), (Uni ''i'', JInt 5)] (Uni ''n'') = Some JNull
   \<and> dict_get True [(Uni ''n'', JNull), (Uni ''i'', JInt 5)] (Uni ''s'') = None
   \<and> dict_get True [(Uni ''n'', JNull), (Uni ''i'', JInt 5)] (Uni ''i'') = Some (JInt 5)"
proof -
  let ?E = "posix_env True no_files"
  let ?N = "JObj [(Uni ''type'', JStr (Uni ''null''))]"
  let ?S = "JObj [(Uni ''type'', JStr (Uni ''string''))]"
  let ?I = "JObj [(Uni ''type'', JStr (Uni ''integer'')), (Uni ''default'', JInt 5)]"
  have h1: "extract_schema_defaults ?E (Suc 0) mixed_schema None None
     = Inr (([(Uni ''n'', JNull), (Uni ''i'', JInt 5)], True), mixed_schema)"
    by (simp add: mixed_schema_def eval_defs)
  have h2: "py_get (py3 ?E) mixed_schema (lit (py3 ?E) ''properties'')
     = Inr (JObj ([(Uni ''n'', ?N)] @ (Uni ''s'', ?S) # [(Uni ''i'', ?I)]))"
    by (simp add: mixed_schema_def eval_defs)
  have h3: "distinct (map (\<lambda>p. str_key (py3 ?E) (fst p))
              ([(Uni ''n'', ?N)] @ (Uni ''s'', ?S) # [(Uni ''i'', ?I)]))"
    by (simp add: eval_defs)
  have h4: "extract_loop ?E 0 mixed_schema None None [(Uni ''n'', ?N)] [] False
     = Inr (([(Uni ''n'', JNull)], True), mixed_schema)"
    by (simp add: mixed_schema_def eval_defs)
  have h5: "resolve_node ?E mixed_schema None None ?S = Inr ?S"
    by (simp add: eval_defs)
  have h6: "py_get (py3 ?E) ?S (lit (py3 ?E) ''type'') = Inr (JStr (Uni ''string''))"
    by (simp add: eval_defs)
  have e: "dict_get True [(Uni ''n'', JNull), (Uni ''i'', JInt 5)] (Uni ''n'') = Some JNull"
    "dict_get True [(Uni ''n'', JNull), (Uni ''i'', JInt 5)] (Uni ''s'') = None"
    "dict_get True [(Uni ''n'', JNull), (Uni ''i'', JInt 5)] (Uni ''i'') = Some (JInt 5)"
    by (simp_all add: eval_defs)
  from key_present_iff [OF h1 h2 h3 h4 h5 h6] h1 e show ?thesis by blast
qed

end
